theory Spec2Isabelle
  imports Complex_Main "HOL-Library.Multiset" "HOL-Library.Sublist"
    "HOL-Library.Char_ord" "HOL-Library.List_Lexorder"
begin

section \<open>Values exchanged with the completion model\<close>

text \<open>
  The analysis dictionaries of \<^verbatim>\<open>services/ai_service.py\<close> hold whatever
  \<^verbatim>\<open>json.loads\<close> produced, so their fields are dynamically typed. A JSON value is a
  datatype; an object is the association list of its dictionary, read with \<open>map_of\<close>.
  Python floats are idealised as reals (no rounding, no NaN, no infinities), and strings are
  lists of 8-bit characters.
\<close>

datatype jval =
    JNull
  | JBool bool
  | JNum real
  | JStr string
  | JArr "jval list"
  | JObj "(string \<times> jval) list"

datatype py_error =
    JSONDecodeError
  | AttributeError
  | TypeError
  | ValueError
  | IndexError
  | UnboundLocalError
  | DatabaseError

text \<open>\<^verbatim>\<open>d.get(key, default)\<close> on a dictionary whose key may be absent.\<close>

definition dict_get :: "'a option \<Rightarrow> 'a \<Rightarrow> 'a" where
  "dict_get v d = (case v of None \<Rightarrow> d | Some x \<Rightarrow> x)"

text \<open>
  The candidate dictionary built by \<^verbatim>\<open>get_candidate_data\<close> and the job dictionary built by
  \<^verbatim>\<open>get_job_data\<close>. The scorer reads the skill lists with \<^verbatim>\<open>.get(key, [])\<close>, so these
  two keys may be absent (\<open>None\<close>).
\<close>

record candidate_data =
  cd_id :: nat
  cd_name :: string
  cd_email :: string
  cd_skills :: "string list option"

record job_data =
  jd_id :: nat
  jd_title :: string
  jd_required_skills :: "string list option"

text \<open>The dictionary returned by the scorer, with its eight keys.\<close>

record analysis =
  compatibility_score :: real
  cultural_fit_score :: real
  professional_fit_score :: real
  ai_analysis :: jval
  red_flags :: jval
  strengths :: jval
  recommendation :: jval
  suggested_questions :: jval

section \<open>The fallback heuristic\<close>

text \<open>
  \<^verbatim>\<open>set(a).intersection(set(b))\<close> followed by \<^verbatim>\<open>list(...)\<close>. Python leaves the iteration
  order of a set unspecified; the model lists the common elements once each, in the order of
  the first list, and the theorems below speak only of the set of its elements.
\<close>

definition common_skills :: "string list \<Rightarrow> string list \<Rightarrow> string list" where
  "common_skills cs js = remdups (filter (\<lambda>s. s \<in> set js) cs)"

definition professional_score :: "string list \<Rightarrow> string list \<Rightarrow> real" where
  "professional_score cs js =
     (if set js \<noteq> {}
      then real (card (set cs \<inter> set js)) / real (card (set js)) * 100
      else 0)"

text \<open>
  The fixed text of \<^verbatim>\<open>_get_fallback_analysis\<close>, in UTF-8 bytes:
  "An\'alise autom\'atica baseada em skills. An\'alise detalhada temporariamente
  indispon\'ivel."
\<close>

definition fallback_text :: string where
  "fallback_text =
     ''An'' @ [CHR 0xC3, CHR 0xA1] @ ''lise autom'' @ [CHR 0xC3, CHR 0xA1] @
     ''tica baseada em skills. An'' @ [CHR 0xC3, CHR 0xA1] @
     ''lise detalhada temporariamente indispon'' @ [CHR 0xC3, CHR 0xAD] @ ''vel.''"

definition get_fallback_analysis :: "candidate_data \<Rightarrow> job_data \<Rightarrow> analysis" where
  "get_fallback_analysis cand job =
     (let candidate_skills = dict_get (cd_skills cand) [];
          job_skills = dict_get (jd_required_skills job) [];
          score = professional_score candidate_skills job_skills
      in \<lparr> compatibility_score = score * (7 / 10),
           cultural_fit_score = 50,
           professional_fit_score = score,
           ai_analysis = JStr fallback_text,
           red_flags = JArr [],
           strengths = JArr (map JStr (common_skills candidate_skills job_skills)),
           recommendation = JStr ''EM_ANALISE'',
           suggested_questions = JArr [] \<rparr>)"

definition extract_info_from_text :: "string \<Rightarrow> candidate_data \<Rightarrow> job_data \<Rightarrow> analysis" where
  "extract_info_from_text txt cand job =
     (let candidate_skills = dict_get (cd_skills cand) [];
          job_skills = dict_get (jd_required_skills job) [];
          score = professional_score candidate_skills job_skills
      in \<lparr> compatibility_score = score * (7 / 10),
           cultural_fit_score = 50,
           professional_fit_score = score,
           ai_analysis = JStr (take 500 txt),
           red_flags = JArr [],
           strengths = JArr (map JStr (common_skills candidate_skills job_skills)),
           recommendation = JStr ''EM_ANALISE'',
           suggested_questions = JArr [] \<rparr>)"

section \<open>Parsing the model's reply\<close>

text \<open>
  \<^verbatim>\<open>str.strip()\<close>, \<^verbatim>\<open>startswith\<close>, \<^verbatim>\<open>endswith\<close> and slicing, on ASCII text. The
  whitespace characters are the ASCII ones that Python's \<^verbatim>\<open>str.isspace\<close> accepts.
\<close>

definition is_space :: "char \<Rightarrow> bool" where
  "is_space c =
     (c \<in> set [CHR 0x20, CHR 0x09, CHR 0x0A, CHR 0x0B, CHR 0x0C, CHR 0x0D,
                CHR 0x1C, CHR 0x1D, CHR 0x1E, CHR 0x1F])"

definition strip :: "string \<Rightarrow> string" where
  "strip s = rev (dropWhile is_space (rev (dropWhile is_space s)))"

definition startswith :: "string \<Rightarrow> string \<Rightarrow> bool" where
  "startswith s p = (take (length p) s = p)"

definition endswith :: "string \<Rightarrow> string \<Rightarrow> bool" where
  "endswith s p = (length p \<le> length s \<and> drop (length s - length p) s = p)"

definition fence :: string where
  "fence = [CHR 0x60, CHR 0x60, CHR 0x60]"

text \<open>The fence removal at the head of \<^verbatim>\<open>_parse_analysis_response\<close>.\<close>

definition clean_response :: "string \<Rightarrow> string" where
  "clean_response response_text =
     (let t0 = strip response_text;
          t1 = (if startswith t0 (fence @ ''json'') then drop 7 t0 else t0);
          t2 = (if startswith t1 fence then drop 3 t1 else t1);
          t3 = (if endswith t2 fence then take (length t2 - 3) t2 else t2)
      in strip t3)"

text \<open>
  \<^verbatim>\<open>float(v)\<close> on a loaded JSON value. Numbers and booleans convert, \<^verbatim>\<open>None\<close>, lists and
  dictionaries raise \<^verbatim>\<open>TypeError\<close>, and a string is handed to Python's own float parser,
  which is a parameter here (\<open>None\<close> is its \<^verbatim>\<open>ValueError\<close>).
\<close>

definition py_float :: "(string \<Rightarrow> real option) \<Rightarrow> jval \<Rightarrow> py_error + real" where
  "py_float to_float v =
     (case v of
        JNum r \<Rightarrow> Inr r
      | JBool b \<Rightarrow> Inr (if b then 1 else 0)
      | JStr s \<Rightarrow> (case to_float s of None \<Rightarrow> Inl ValueError | Some r \<Rightarrow> Inr r)
      | _ \<Rightarrow> Inl TypeError)"

text \<open>
  \<^verbatim>\<open>_parse_analysis_response\<close>. \<^verbatim>\<open>json.loads\<close> is the parameter \<open>loads\<close>, with \<open>None\<close>
  for its \<^verbatim>\<open>JSONDecodeError\<close>, the only exception this function catches. A loaded value
  that is not a dictionary has no \<^verbatim>\<open>.get\<close> and raises \<^verbatim>\<open>AttributeError\<close>; a score that
  \<^verbatim>\<open>float\<close> refuses raises too. The three scores are converted in the order of the source.
\<close>

definition parse_analysis_response ::
  "(string \<Rightarrow> jval option) \<Rightarrow> (string \<Rightarrow> real option) \<Rightarrow> string \<Rightarrow>
   candidate_data \<Rightarrow> job_data \<Rightarrow> py_error + analysis" where
  "parse_analysis_response loads to_float response_text cand job =
     (let txt = clean_response response_text in
      case loads txt of
        None \<Rightarrow> Inr (extract_info_from_text txt cand job)
      | Some (JObj kvs) \<Rightarrow>
          (case py_float to_float (dict_get (map_of kvs ''compatibility_score'') (JNum 0)) of
             Inl e \<Rightarrow> Inl e
           | Inr c \<Rightarrow>
          (case py_float to_float (dict_get (map_of kvs ''cultural_fit_score'') (JNum 0)) of
             Inl e \<Rightarrow> Inl e
           | Inr u \<Rightarrow>
          (case py_float to_float (dict_get (map_of kvs ''professional_fit_score'') (JNum 0)) of
             Inl e \<Rightarrow> Inl e
           | Inr p \<Rightarrow>
               Inr \<lparr> compatibility_score = c,
                     cultural_fit_score = u,
                     professional_fit_score = p,
                     ai_analysis = dict_get (map_of kvs ''analysis'') (JStr []),
                     red_flags = dict_get (map_of kvs ''red_flags'') (JArr []),
                     strengths = dict_get (map_of kvs ''strengths'') (JArr []),
                     recommendation = dict_get (map_of kvs ''recommendation'') (JStr ''EM_ANALISE''),
                     suggested_questions =
                       dict_get (map_of kvs ''suggested_questions'') (JArr []) \<rparr>)))
      | Some _ \<Rightarrow> Inl AttributeError)"

text \<open>
  What the completion call gives back: the call raises, or the reply has no text
  (\<^verbatim>\<open>message.content\<close> is \<^verbatim>\<open>None\<close>, on which \<^verbatim>\<open>.strip()\<close> raises), or it has text.
\<close>

datatype completion = ApiError | NoContent | Content string

text \<open>
  \<^verbatim>\<open>analyze_candidate_compatibility\<close>: every exception of the body is caught and answered
  with \<^verbatim>\<open>_get_fallback_analysis\<close>. Building the prompt reads the records only and cannot
  raise, so it is left out.
\<close>

definition analyze_candidate_compatibility ::
  "(string \<Rightarrow> jval option) \<Rightarrow> (string \<Rightarrow> real option) \<Rightarrow> completion \<Rightarrow>
   candidate_data \<Rightarrow> job_data \<Rightarrow> analysis" where
  "analyze_candidate_compatibility loads to_float response cand job =
     (case response of
        ApiError \<Rightarrow> get_fallback_analysis cand job
      | NoContent \<Rightarrow> get_fallback_analysis cand job
      | Content analysis_text \<Rightarrow>
          (case parse_analysis_response loads to_float analysis_text cand job of
             Inl e \<Rightarrow> get_fallback_analysis cand job
           | Inr a \<Rightarrow> a))"

section \<open>Talent search\<close>

text \<open>
  A candidate of the pool handed to \<^verbatim>\<open>search_talent_pool\<close>. Every field but the id and
  the email is read with \<^verbatim>\<open>.get(key, default)\<close>, so it may be absent; the search endpoint
  never sets \<^verbatim>\<open>area\<close>. A scored candidate, \<^verbatim>\<open>{**candidate, "relevance_score": score}\<close>,
  is the pair of the candidate and its score.
\<close>

record talent =
  t_id :: nat
  t_name :: "string option"
  t_email :: string
  t_skills :: "string list option"
  t_profile :: "string option"
  t_level :: "string option"
  t_area :: "string option"

type_synonym scored_talent = "talent \<times> real"

text \<open>\<^verbatim>\<open>str.lower()\<close> on ASCII letters; other characters are left as they are.\<close>

definition lower_char :: "char \<Rightarrow> char" where
  "lower_char c =
     (case map_of (zip ''ABCDEFGHIJKLMNOPQRSTUVWXYZ'' ''abcdefghijklmnopqrstuvwxyz'') c of
        None \<Rightarrow> c
      | Some l \<Rightarrow> l)"

definition lower :: "string \<Rightarrow> string" where
  "lower s = map lower_char s"

text \<open>\<^verbatim>\<open>sep.join(xs)\<close>.\<close>

fun join :: "string \<Rightarrow> string list \<Rightarrow> string" where
  "join sep [] = []"
| "join sep [x] = x"
| "join sep (x # y # ys) = x @ sep @ join sep (y # ys)"

text \<open>\<^verbatim>\<open>str.split()\<close> without arguments: the maximal runs of non-whitespace characters.\<close>

fun split_acc :: "string \<Rightarrow> string \<Rightarrow> string list" where
  "split_acc cur [] = (if cur = [] then [] else [cur])"
| "split_acc cur (c # cs) =
     (if is_space c
      then (if cur = [] then split_acc [] cs else cur # split_acc [] cs)
      else split_acc (cur @ [c]) cs)"

definition split_ws :: "string \<Rightarrow> string list" where
  "split_ws s = split_acc [] s"

text \<open>\<^verbatim>\<open>q in t\<close> on strings: \<open>q\<close> occurs in \<open>t\<close> as a contiguous run.\<close>

fun contains :: "string \<Rightarrow> string \<Rightarrow> bool" where
  "contains [] q = (q = [])"
| "contains (c # cs) q = (startswith (c # cs) q \<or> contains cs q)"

text \<open>
  \<^verbatim>\<open>xs.sort(key=f, reverse=True)\<close>, and \<^verbatim>\<open>ORDER BY ... DESC\<close>: Python's sort is
  stable, also in reverse, so elements with equal keys keep their order. That is insertion
  sort, each element going in front of the first one whose key is not larger.
\<close>

fun insort_desc :: "('a \<Rightarrow> 'k::linorder) \<Rightarrow> 'a \<Rightarrow> 'a list \<Rightarrow> 'a list" where
  "insort_desc f x [] = [x]"
| "insort_desc f x (y # ys) = (if f y \<le> f x then x # y # ys else y # insort_desc f x ys)"

definition sort_desc :: "('a \<Rightarrow> 'k::linorder) \<Rightarrow> 'a list \<Rightarrow> 'a list" where
  "sort_desc f xs = foldr (insort_desc f) xs []"

subsection \<open>The text fallback\<close>

definition haystack :: "talent \<Rightarrow> string" where
  "haystack candidate =
     (let name = lower (dict_get (t_name candidate) []);
          skills = join '' '' (map lower (dict_get (t_skills candidate) []));
          profile = lower (dict_get (t_profile candidate) [])
      in name @ '' '' @ skills @ '' '' @ profile)"

definition text_score :: "string \<Rightarrow> talent \<Rightarrow> real" where
  "text_score query_lower candidate =
     (let txt = haystack candidate in
      if contains txt query_lower then 100
      else
        (let query_words = set (split_ws query_lower);
             text_words = set (split_ws txt);
             common = query_words \<inter> text_words
         in if query_words \<noteq> {}
            then real (card common) / real (card query_words) * 100
            else 0))"

definition simple_text_search :: "talent list \<Rightarrow> string \<Rightarrow> scored_talent list" where
  "simple_text_search candidates query =
     (let query_lower = lower query;
          scored = map (\<lambda>candidate. (candidate, text_score query_lower candidate)) candidates
      in filter (\<lambda>c. snd c > 0) (sort_desc snd scored))"

subsection \<open>Ranking by extracted criteria\<close>

text \<open>
  \<^verbatim>\<open>[s.lower() for s in v]\<close> on a loaded JSON value: a list must hold strings only, a
  string is iterated character by character, a dictionary by its keys, and nothing else
  can be iterated.
\<close>

fun lower_each :: "jval \<Rightarrow> py_error + string list" where
  "lower_each (JArr xs) =
     (if list_all (\<lambda>x. case x of JStr _ \<Rightarrow> True | _ \<Rightarrow> False) xs
      then Inr (map (\<lambda>x. case x of JStr s \<Rightarrow> lower s | _ \<Rightarrow> []) xs)
      else Inl AttributeError)"
| "lower_each (JStr s) = Inr (map (\<lambda>c. [lower_char c]) s)"
| "lower_each (JObj kvs) = Inr (map lower (remdups (map fst kvs)))"
| "lower_each _ = Inl TypeError"

text \<open>\<^verbatim>\<open>criteria.get(key, "").lower()\<close>.\<close>

definition get_lower :: "(string \<times> jval) list \<Rightarrow> string \<Rightarrow> py_error + string" where
  "get_lower kvs key =
     (case dict_get (map_of kvs key) (JStr []) of
        JStr s \<Rightarrow> Inr (lower s)
      | _ \<Rightarrow> Inl AttributeError)"

text \<open>The body of the loop of \<^verbatim>\<open>_rank_candidates_by_criteria\<close> for one candidate.\<close>

definition criteria_score :: "jval \<Rightarrow> talent \<Rightarrow> py_error + real" where
  "criteria_score criteria candidate =
     (let candidate_skills = map lower (dict_get (t_skills candidate) []) in
      case criteria of
        JObj kvs \<Rightarrow>
          (case lower_each (dict_get (map_of kvs ''skills'') (JArr [])) of
             Inl e \<Rightarrow> Inl e
           | Inr required_skills \<Rightarrow>
          (let matching_skills = set candidate_skills \<inter> set required_skills;
               score1 = (if required_skills \<noteq> []
                         then real (card matching_skills) / real (length required_skills) * 50
                         else 0);
               candidate_level = lower (dict_get (t_level candidate) [])
           in
          (case get_lower kvs ''level'' of
             Inl e \<Rightarrow> Inl e
           | Inr required_level \<Rightarrow>
          (let score2 = (if required_level \<noteq> [] \<and> required_level \<noteq> ''qualquer'' \<and>
                            (contains candidate_level required_level \<or>
                             contains required_level candidate_level)
                         then score1 + 30 else score1);
               candidate_area = lower (dict_get (t_area candidate) [])
           in
          (case get_lower kvs ''area'' of
             Inl e \<Rightarrow> Inl e
           | Inr required_area \<Rightarrow>
               Inr (if required_area \<noteq> [] \<and> contains candidate_area required_area
                    then score2 + 20 else score2))))))
      | _ \<Rightarrow> Inl AttributeError)"

fun score_all :: "jval \<Rightarrow> talent list \<Rightarrow> py_error + scored_talent list" where
  "score_all criteria [] = Inr []"
| "score_all criteria (candidate # rest) =
     (case criteria_score criteria candidate of
        Inl e \<Rightarrow> Inl e
      | Inr score \<Rightarrow>
          (case score_all criteria rest of
             Inl e \<Rightarrow> Inl e
           | Inr scored \<Rightarrow> Inr ((candidate, score) # scored)))"

definition rank_candidates_by_criteria ::
  "talent list \<Rightarrow> jval \<Rightarrow> py_error + scored_talent list" where
  "rank_candidates_by_criteria candidates criteria =
     (case score_all criteria candidates of
        Inl e \<Rightarrow> Inl e
      | Inr scored_candidates \<Rightarrow> Inr (sort_desc snd scored_candidates))"

text \<open>
  \<^verbatim>\<open>search_talent_pool\<close>: the reply is loaded as it is (no fence removal here), and any
  exception of the criteria path is answered with the text fallback.
\<close>

definition search_talent_pool ::
  "(string \<Rightarrow> jval option) \<Rightarrow> completion \<Rightarrow> string \<Rightarrow> talent list \<Rightarrow> scored_talent list" where
  "search_talent_pool loads response query candidates =
     (case response of
        ApiError \<Rightarrow> simple_text_search candidates query
      | NoContent \<Rightarrow> simple_text_search candidates query
      | Content txt \<Rightarrow>
          (case loads txt of
             None \<Rightarrow> simple_text_search candidates query
           | Some search_criteria \<Rightarrow>
               (case rank_candidates_by_criteria candidates search_criteria of
                  Inl e \<Rightarrow> simple_text_search candidates query
                | Inr ranked_candidates \<Rightarrow> ranked_candidates)))"

section \<open>The database and its connection pool\<close>

text \<open>
  The tables the modelled queries read and write, with the columns they use; the two skill
  tables hold the skill's name, as their join with the skill table gives it, and
  \<open>comments_table\<close> is \<open>None\<close> until the table is created. A state also counts the
  connections taken from the pool and not given back (\<open>in_use\<close>) and the calls of
  \<^verbatim>\<open>db.get_connection()\<close> made so far (\<open>calls\<close>); \<open>now\<close> is the database clock and
  \<open>next_id\<close> the next generated key. \<open>error_log\<close> keeps what the ranking loop logs.
  Rows with equal sort keys, whose order a query leaves open, stay in table order.
\<close>

record user_row =
  u_id :: nat
  u_nome :: string
  u_email :: string
  u_role :: string

record job_row =
  j_id :: nat
  j_titulo :: string

record model_result_row =
  mr_id :: nat
  mr_user_id :: nat
  mr_job_id :: nat
  mr_score_afinidade_cultural :: real
  mr_score_compatibilidade_profissional :: real
  mr_red_flags :: "string option"
  mr_recomendacao :: jval
  mr_detalhes :: jval
  mr_created_at :: nat

record comment_row =
  cm_id :: nat
  cm_candidate_id :: nat
  cm_comment_text :: string
  cm_tags :: "string option"
  cm_created_at :: nat
  cm_created_by :: string

record dbstate =
  users :: "user_row list"
  candidate_skills :: "(nat \<times> string \<times> real) list"
  jobs :: "job_row list"
  job_skills :: "(nat \<times> string) list"
  model_results :: "model_result_row list"
  comments_table :: "comment_row list option"
  db_user :: string
  next_id :: nat
  now :: nat
  in_use :: nat
  calls :: nat
  error_log :: "(nat \<times> py_error) list"

text \<open>
  What lies outside the repository. A database call can fail: \<open>fault_at k\<close> says whether
  the \<open>k\<close>-th call of \<^verbatim>\<open>get_connection\<close> raises, or gives a connection on which the first
  statement raises. The driver decides how a bind variable shows its value to
  \<^verbatim>\<open>getvalue()\<close>: \<open>out_value i\<close> for a variable the database wrote the key \<open>i\<close> into,
  \<open>fresh_value\<close> for a variable that was never bound; and \<open>bindable\<close> says which loaded JSON
  values it accepts as bind values.
\<close>

datatype fault = NoFault | AcquireFails | ExecuteFails

datatype pyval = PyNone | PyInt nat | PyList "nat list"

record driver =
  fault_at :: "nat \<Rightarrow> fault"
  out_value :: "nat \<Rightarrow> pyval"
  fresh_value :: pyval
  bindable :: "jval \<Rightarrow> bool"

definition get_connection :: "driver \<Rightarrow> dbstate \<Rightarrow> (py_error + unit) \<times> dbstate" where
  "get_connection d st =
     (let st1 = st\<lparr>calls := calls st + 1\<rparr> in
      if fault_at d (calls st) = AcquireFails then (Inl DatabaseError, st1)
      else (Inr (), st1\<lparr>in_use := in_use st1 + 1\<rparr>))"

text \<open>\<^verbatim>\<open>db.pool.release(conn)\<close>.\<close>

definition release :: "dbstate \<Rightarrow> dbstate" where
  "release st = st\<lparr>in_use := in_use st - 1\<rparr>"

text \<open>\<^verbatim>\<open>v.getvalue()[0] if v.getvalue() else None\<close> and the unguarded \<^verbatim>\<open>v.getvalue()[0]\<close>.\<close>

definition first_or_none :: "pyval \<Rightarrow> py_error + nat option" where
  "first_or_none v =
     (case v of
        PyNone \<Rightarrow> Inr None
      | PyInt n \<Rightarrow> (if n = 0 then Inr None else Inl TypeError)
      | PyList [] \<Rightarrow> Inr None
      | PyList (x # _) \<Rightarrow> Inr (Some x))"


subsection \<open>Reading candidates and jobs\<close>

text \<open>
  \<^verbatim>\<open>get_candidate_data\<close>. The function does not initialise \<^verbatim>\<open>conn\<close> before its
  \<^verbatim>\<open>try\<close>, so when \<^verbatim>\<open>get_connection\<close> raises, the handler's \<^verbatim>\<open>if conn\<close> raises
  \<^verbatim>\<open>UnboundLocalError\<close>, which leaves the function. When no row is found it returns
  before the connection is released.
\<close>

definition skills_of :: "dbstate \<Rightarrow> nat \<Rightarrow> string list" where
  "skills_of st candidate_id =
     map (\<lambda>r. fst (snd r))
       (sort_desc (\<lambda>r. snd (snd r)) (filter (\<lambda>r. fst r = candidate_id) (candidate_skills st)))"

definition get_candidate_data ::
  "driver \<Rightarrow> nat \<Rightarrow> dbstate \<Rightarrow> (py_error + candidate_data option) \<times> dbstate" where
  "get_candidate_data d candidate_id st =
     (case get_connection d st of
        (Inl e, st1) \<Rightarrow> (Inl UnboundLocalError, st1)
      | (Inr _, st1) \<Rightarrow>
          if fault_at d (calls st) = ExecuteFails then (Inr None, release st1)
          else
            (case find (\<lambda>u. u_id u = candidate_id \<and> u_role u = ''candidate'') (users st1) of
               None \<Rightarrow> (Inr None, st1)
             | Some row \<Rightarrow>
                 (Inr (Some \<lparr> cd_id = u_id row, cd_name = u_nome row, cd_email = u_email row,
                              cd_skills = Some (skills_of st1 candidate_id) \<rparr>),
                  release st1)))"

text \<open>
  \<^verbatim>\<open>get_job_data\<close> sets \<^verbatim>\<open>conn = None\<close> first, so every exception ends in
  \<^verbatim>\<open>return None\<close>. It too returns before the release when no row is found.
\<close>

definition get_job_data :: "driver \<Rightarrow> nat \<Rightarrow> dbstate \<Rightarrow> job_data option \<times> dbstate" where
  "get_job_data d job_id st =
     (case get_connection d st of
        (Inl e, st1) \<Rightarrow> (None, st1)
      | (Inr _, st1) \<Rightarrow>
          if fault_at d (calls st) = ExecuteFails then (None, release st1)
          else
            (case find (\<lambda>j. j_id j = job_id) (jobs st1) of
               None \<Rightarrow> (None, st1)
             | Some row \<Rightarrow>
                 (Some \<lparr> jd_id = j_id row, jd_title = j_titulo row,
                         jd_required_skills =
                           Some (map snd (filter (\<lambda>r. fst r = job_id) (job_skills st1))) \<rparr>,
                  release st1)))"

text \<open>\<^verbatim>\<open>get_all_candidates\<close>: the users with the role candidate, ordered by name.\<close>

definition get_all_candidates :: "driver \<Rightarrow> dbstate \<Rightarrow> candidate_data list \<times> dbstate" where
  "get_all_candidates d st =
     (case get_connection d st of
        (Inl e, st1) \<Rightarrow> ([], st1)
      | (Inr _, st1) \<Rightarrow>
          if fault_at d (calls st) = ExecuteFails then ([], release st1)
          else
            (map (\<lambda>row. \<lparr> cd_id = u_id row, cd_name = u_nome row, cd_email = u_email row,
                          cd_skills = Some (map (\<lambda>r. fst (snd r))
                            (filter (\<lambda>r. fst r = u_id row) (candidate_skills st1))) \<rparr>)
               (sort_key u_nome (filter (\<lambda>u. u_role u = ''candidate'') (users st1))),
             release st1))"

subsection \<open>Saving an analysis\<close>

text \<open>Python's truth value of a loaded JSON value.\<close>

fun truthy :: "jval \<Rightarrow> bool" where
  "truthy JNull = False"
| "truthy (JBool b) = b"
| "truthy (JNum r) = (r \<noteq> 0)"
| "truthy (JStr s) = (s \<noteq> [])"
| "truthy (JArr xs) = (xs \<noteq> [])"
| "truthy (JObj kvs) = (kvs \<noteq> [])"

text \<open>
  \<^verbatim>\<open>", ".join(red_flags) if red_flags else None\<close>: joining raises \<^verbatim>\<open>TypeError\<close> on a
  list with an element that is no string and on a value that cannot be iterated; a string
  is joined character by character, a dictionary by its keys.
\<close>

definition red_flags_text :: "jval \<Rightarrow> py_error + string option" where
  "red_flags_text v =
     (if \<not> truthy v then Inr None
      else
        (case v of
           JArr xs \<Rightarrow>
             (if list_all (\<lambda>x. case x of JStr _ \<Rightarrow> True | _ \<Rightarrow> False) xs
              then Inr (Some (join '', '' (map (\<lambda>x. case x of JStr s \<Rightarrow> s | _ \<Rightarrow> []) xs)))
              else Inl TypeError)
         | JStr s \<Rightarrow> Inr (Some (join '', '' (map (\<lambda>c. [c]) s)))
         | JObj kvs \<Rightarrow> Inr (Some (join '', '' (remdups (map fst kvs))))
         | _ \<Rightarrow> Inl TypeError))"

text \<open>
  Modelled from the spec: the stored procedure \<^verbatim>\<open>PRC_INSERT_MODEL_RESULT\<close> is not among
  the sources. The specification says that a result is persisted as an append-only history
  record and that every call creates a new row; the procedure is taken to append the row it
  is given under a fresh key and to hand that key back.
\<close>

definition prc_insert_model_result ::
  "nat \<Rightarrow> nat \<Rightarrow> real \<Rightarrow> real \<Rightarrow> string option \<Rightarrow> jval \<Rightarrow> jval \<Rightarrow> dbstate \<Rightarrow> nat \<times> dbstate" where
  "prc_insert_model_result user_id job_id cultural professional rf recommend details st =
     (next_id st,
      st\<lparr> model_results := model_results st @
             [\<lparr> mr_id = next_id st, mr_user_id = user_id, mr_job_id = job_id,
                mr_score_afinidade_cultural = cultural,
                mr_score_compatibilidade_profissional = professional,
                mr_red_flags = rf, mr_recomendacao = recommend, mr_detalhes = details,
                mr_created_at = now st \<rparr>],
           next_id := next_id st + 1 \<rparr>)"

text \<open>
  \<^verbatim>\<open>save_model_result\<close>. Every exception is caught: the transaction is rolled back, the
  connection released and \<^verbatim>\<open>None\<close> returned. The compatibility score is a parameter of the
  function that the statement does not use.
\<close>

definition save_model_result ::
  "driver \<Rightarrow> nat \<Rightarrow> nat \<Rightarrow> real \<Rightarrow> real \<Rightarrow> real \<Rightarrow> jval \<Rightarrow> jval \<Rightarrow> jval \<Rightarrow> dbstate \<Rightarrow>
   nat option \<times> dbstate" where
  "save_model_result d candidate_id job_id compatibility cultural professional analysis_text
       flags recommend st =
     (case get_connection d st of
        (Inl e, st1) \<Rightarrow> (None, st1)
      | (Inr _, st1) \<Rightarrow>
          (case red_flags_text flags of
             Inl e \<Rightarrow> (None, release st1)
           | Inr red_flags_txt \<Rightarrow>
               if fault_at d (calls st) = ExecuteFails \<or> \<not> bindable d recommend \<or>
                  \<not> bindable d analysis_text
               then (None, release st1)
               else
                 (case prc_insert_model_result candidate_id job_id cultural professional
                         red_flags_txt recommend analysis_text st1 of
                    (key, st2) \<Rightarrow>
                      (case first_or_none (out_value d key) of
                         Inl e \<Rightarrow> (None, release st1)
                       | Inr result_id \<Rightarrow> (result_id, release st2)))))"

subsection \<open>The ranking endpoint\<close>

text \<open>
  \<^verbatim>\<open>CandidateRankingRequest\<close>: both optional fields accept an explicit \<^verbatim>\<open>null\<close>, and the
  bounds of the schema apply to the values that are given.
\<close>

record ranking_request =
  rq_job_id :: nat
  rq_limit :: "int option"
  rq_min_compatibility :: "real option"


text \<open>An entry of the ranking, with the nine keys of the source.\<close>

record ranked =
  rk_candidate_id :: nat
  rk_candidate_name :: string
  rk_candidate_email :: string
  rk_compatibility_score :: real
  rk_cultural_fit_score :: real
  rk_professional_fit_score :: real
  rk_ai_analysis :: jval
  rk_red_flags :: jval
  rk_recommendation :: jval

datatype http_error = HTTP_404 | HTTP_500

text \<open>
  What the body of the loop's \<^verbatim>\<open>try\<close> does for one candidate: it raises, or it goes on to
  the next candidate without an entry, or it appends an entry. With the entry comes what
  \<^verbatim>\<open>save_model_result\<close> returned, which the source discards.
\<close>

datatype outcome = Raised py_error | Skipped | Ranked ranked "nat option"

text \<open>
  The completion model is a function from the pair the prompt is built from to its reply.
  Comparing a float with \<^verbatim>\<open>None\<close>, when the request gave \<^verbatim>\<open>null\<close> as the minimum,
  raises \<^verbatim>\<open>TypeError\<close>.
\<close>

definition process_candidate ::
  "driver \<Rightarrow> (string \<Rightarrow> jval option) \<Rightarrow> (string \<Rightarrow> real option) \<Rightarrow>
   (candidate_data \<Rightarrow> job_data \<Rightarrow> completion) \<Rightarrow> ranking_request \<Rightarrow> job_data \<Rightarrow>
   dbstate \<Rightarrow> candidate_data \<Rightarrow> outcome \<times> dbstate" where
  "process_candidate d loads to_float llm request job st candidate =
     (case get_candidate_data d (cd_id candidate) st of
        (Inl e, st1) \<Rightarrow> (Raised e, st1)
      | (Inr None, st1) \<Rightarrow> (Skipped, st1)
      | (Inr (Some cdata), st1) \<Rightarrow>
          (let a = analyze_candidate_compatibility loads to_float (llm cdata job) cdata job in
           case rq_min_compatibility request of
             None \<Rightarrow> (Raised TypeError, st1)
           | Some m \<Rightarrow>
               if compatibility_score a < m then (Skipped, st1)
               else
                 (case save_model_result d (cd_id candidate) (rq_job_id request)
                         (compatibility_score a) (cultural_fit_score a)
                         (professional_fit_score a) (ai_analysis a) (red_flags a)
                         (recommendation a) st1 of
                    (saved, st2) \<Rightarrow>
                      (Ranked \<lparr> rk_candidate_id = cd_id candidate,
                                rk_candidate_name = cd_name cdata,
                                rk_candidate_email = cd_email cdata,
                                rk_compatibility_score = compatibility_score a,
                                rk_cultural_fit_score = cultural_fit_score a,
                                rk_professional_fit_score = professional_fit_score a,
                                rk_ai_analysis = ai_analysis a,
                                rk_red_flags = red_flags a,
                                rk_recommendation = recommendation a \<rparr> saved,
                       st2))))"

text \<open>The loop: an exception is logged with the candidate's id, and the loop goes on.\<close>

fun rank_loop ::
  "driver \<Rightarrow> (string \<Rightarrow> jval option) \<Rightarrow> (string \<Rightarrow> real option) \<Rightarrow>
   (candidate_data \<Rightarrow> job_data \<Rightarrow> completion) \<Rightarrow> ranking_request \<Rightarrow> job_data \<Rightarrow>
   dbstate \<Rightarrow> candidate_data list \<Rightarrow> ranked list \<times> dbstate" where
  "rank_loop d loads to_float llm request job st [] = ([], st)"
| "rank_loop d loads to_float llm request job st (candidate # rest) =
     (case process_candidate d loads to_float llm request job st candidate of
        (Raised e, st1) \<Rightarrow>
          rank_loop d loads to_float llm request job
            (st1\<lparr>error_log := error_log st1 @ [(cd_id candidate, e)]\<rparr>) rest
      | (Skipped, st1) \<Rightarrow> rank_loop d loads to_float llm request job st1 rest
      | (Ranked entry saved, st1) \<Rightarrow>
          (case rank_loop d loads to_float llm request job st1 rest of
             (entries, st2) \<Rightarrow> (entry # entries, st2)))"

text \<open>\<^verbatim>\<open>xs[:n]\<close>, where \<open>n\<close> may be \<^verbatim>\<open>None\<close> or negative.\<close>

definition slice_to :: "int option \<Rightarrow> 'a list \<Rightarrow> 'a list" where
  "slice_to n xs =
     (case n of
        None \<Rightarrow> xs
      | Some k \<Rightarrow> if 0 \<le> k then take (nat k) xs else take (length xs - nat (- k)) xs)"

text \<open>
  \<^verbatim>\<open>rank_candidates\<close>. Nothing outside the loop can raise in this model, so the handler
  that answers with status 500 is never reached.
\<close>

definition rank_candidates ::
  "driver \<Rightarrow> (string \<Rightarrow> jval option) \<Rightarrow> (string \<Rightarrow> real option) \<Rightarrow>
   (candidate_data \<Rightarrow> job_data \<Rightarrow> completion) \<Rightarrow> ranking_request \<Rightarrow> dbstate \<Rightarrow>
   (http_error + ranked list) \<times> dbstate" where
  "rank_candidates d loads to_float llm request st =
     (case get_job_data d (rq_job_id request) st of
        (None, st1) \<Rightarrow> (Inl HTTP_404, st1)
      | (Some job, st1) \<Rightarrow>
          (case get_all_candidates d st1 of
             (all_candidates, st2) \<Rightarrow>
               if all_candidates = [] then (Inr [], st2)
               else
                 (case rank_loop d loads to_float llm request job st2 all_candidates of
                    (ranked_candidates, st3) \<Rightarrow>
                      (Inr (slice_to (rq_limit request)
                              (sort_desc rk_compatibility_score ranked_candidates)),
                       st3))))"

text \<open>
  The outcomes of the loop, candidate by candidate, in the states the loop reaches them in:
  the same recursion as \<open>rank_loop\<close>, keeping what each pass did.
\<close>

fun loop_trace ::
  "driver \<Rightarrow> (string \<Rightarrow> jval option) \<Rightarrow> (string \<Rightarrow> real option) \<Rightarrow>
   (candidate_data \<Rightarrow> job_data \<Rightarrow> completion) \<Rightarrow> ranking_request \<Rightarrow> job_data \<Rightarrow>
   dbstate \<Rightarrow> candidate_data list \<Rightarrow> (candidate_data \<times> outcome) list" where
  "loop_trace d loads to_float llm request job st [] = []"
| "loop_trace d loads to_float llm request job st (candidate # rest) =
     (case process_candidate d loads to_float llm request job st candidate of
        (Raised e, st1) \<Rightarrow>
          (candidate, Raised e) #
          loop_trace d loads to_float llm request job
            (st1\<lparr>error_log := error_log st1 @ [(cd_id candidate, e)]\<rparr>) rest
      | (out, st1) \<Rightarrow> (candidate, out) # loop_trace d loads to_float llm request job st1 rest)"

text \<open>
  Reading the trace of a ranking: the entries the loop appended, the failures it logged, the
  trace of the loop that \<^verbatim>\<open>rank_candidates\<close> runs (empty when it runs none), and what it
  means for a history row to hold an entry.
\<close>

fun entries_of :: "(candidate_data \<times> outcome) list \<Rightarrow> ranked list" where
  "entries_of [] = []"
| "entries_of ((c, Ranked entry saved) # t) = entry # entries_of t"
| "entries_of (_ # t) = entries_of t"

fun failures_of :: "(candidate_data \<times> outcome) list \<Rightarrow> (nat \<times> py_error) list" where
  "failures_of [] = []"
| "failures_of ((c, Raised e) # t) = (cd_id c, e) # failures_of t"
| "failures_of (_ # t) = failures_of t"

definition ranking_trace ::
  "driver \<Rightarrow> (string \<Rightarrow> jval option) \<Rightarrow> (string \<Rightarrow> real option) \<Rightarrow>
   (candidate_data \<Rightarrow> job_data \<Rightarrow> completion) \<Rightarrow> ranking_request \<Rightarrow> dbstate \<Rightarrow>
   (candidate_data \<times> outcome) list" where
  "ranking_trace d loads to_float llm request st =
     (case get_job_data d (rq_job_id request) st of
        (None, st1) \<Rightarrow> []
      | (Some job, st1) \<Rightarrow>
          (case get_all_candidates d st1 of
             (all_candidates, st2) \<Rightarrow>
               loop_trace d loads to_float llm request job st2 all_candidates))"

definition holds_entry :: "ranking_request \<Rightarrow> ranked \<Rightarrow> model_result_row \<Rightarrow> bool" where
  "holds_entry request entry row =
     (mr_user_id row = rk_candidate_id entry \<and> mr_job_id row = rq_job_id request \<and>
      mr_score_afinidade_cultural row = rk_cultural_fit_score entry \<and>
      mr_score_compatibilidade_profissional row = rk_professional_fit_score entry \<and>
      mr_recomendacao row = rk_recommendation entry \<and>
      mr_detalhes row = rk_ai_analysis entry)"

subsection \<open>Listing a candidate's results\<close>

text \<open>
  \<^verbatim>\<open>get_candidate_model_results\<close> of \<^verbatim>\<open>main.py\<close>: the handler of its \<^verbatim>\<open>try\<close> answers
  with status 500 and does not release the connection.
\<close>

definition get_candidate_model_results ::
  "driver \<Rightarrow> nat \<Rightarrow> dbstate \<Rightarrow> (http_error + model_result_row list) \<times> dbstate" where
  "get_candidate_model_results d candidate_id st =
     (case get_connection d st of
        (Inl e, st1) \<Rightarrow> (Inl HTTP_500, st1)
      | (Inr _, st1) \<Rightarrow>
          if fault_at d (calls st) = ExecuteFails then (Inl HTTP_500, st1)
          else
            (Inr (sort_desc mr_created_at
                    (filter (\<lambda>r. mr_user_id r = candidate_id \<and>
                                 mr_job_id r \<in> set (map j_id (jobs st1)))
                       (model_results st1))),
             release st1))"

subsection \<open>Comments\<close>







section \<open>Concrete inputs\<close>

text \<open>
  The scenario of the specification: the job requires Python and SQL, candidate A has
  Python, SQL and React, candidate B has Java. Candidate C writes one skill in lower case.
\<close>

definition cand_a :: candidate_data where
  "cand_a = \<lparr> cd_id = 1, cd_name = ''A'', cd_email = ''a@example.com'',
              cd_skills = Some [''Python'', ''SQL'', ''React''] \<rparr>"

definition cand_b :: candidate_data where
  "cand_b = \<lparr> cd_id = 2, cd_name = ''B'', cd_email = ''b@example.com'',
              cd_skills = Some [''Java''] \<rparr>"

definition cand_c :: candidate_data where
  "cand_c = \<lparr> cd_id = 3, cd_name = ''C'', cd_email = ''c@example.com'',
              cd_skills = Some [''python'', ''SQL''] \<rparr>"

definition job_ps :: job_data where
  "job_ps = \<lparr> jd_id = 10, jd_title = ''Backend'',
              jd_required_skills = Some [''Python'', ''SQL''] \<rparr>"

text \<open>
  Replies of the model, and \<^verbatim>\<open>json.loads\<close> and \<^verbatim>\<open>float\<close> cut down to the texts used
  below: each listed text is mapped to the value Python loads it as, and the one other text
  used, a sentence of prose, is not JSON.
\<close>

definition reply_150 :: string where
  \<open>reply_150 = ''{"compatibility_score": 150}''\<close>

definition reply_null_flags :: string where
  \<open>reply_null_flags = ''{"compatibility_score": 80, "recommendation": "TALVEZ", "red_flags": null}''\<close>

definition reply_partial :: string where
  \<open>reply_partial = fence @ ''json'' @ [CHR 0x0A] @ ''{"compatibility_score": 85, "recommendation": "APROVADO"}'' @ [CHR 0x0A] @ fence\<close>

definition reply_prose :: string where
  "reply_prose = ''The candidate looks strong.''"

definition loads_demo :: "string \<Rightarrow> jval option" where
  \<open>loads_demo s =
     (if s = ''{"compatibility_score": 150}''
      then Some (JObj [(''compatibility_score'', JNum 150)])
      else if s = ''{"compatibility_score": 80, "recommendation": "TALVEZ", "red_flags": null}''
      then Some (JObj [(''compatibility_score'', JNum 80), (''recommendation'', JStr ''TALVEZ''),
                       (''red_flags'', JNull)])
      else if s = ''{"compatibility_score": 85, "recommendation": "APROVADO"}''
      then Some (JObj [(''compatibility_score'', JNum 85), (''recommendation'', JStr ''APROVADO'')])
      else None)\<close>

definition to_float_demo :: "string \<Rightarrow> real option" where
  "to_float_demo s = (if s = ''85'' then Some 85 else None)"

text \<open>
  A pool as the search endpoint builds it (an empty level, no area), a candidate with a
  level and an area, two criteria dictionaries, and \<^verbatim>\<open>json.loads\<close> cut down to the one
  criteria reply used below.
\<close>

definition talent_a :: talent where
  "talent_a = \<lparr> t_id = 1, t_name = Some ''Ana Silva'', t_email = ''ana@example.com'',
                t_skills = Some [''Python'', ''SQL''], t_profile = Some ''Senior dev'',
                t_level = Some [], t_area = None \<rparr>"

definition talent_b :: talent where
  "talent_b = \<lparr> t_id = 2, t_name = Some ''Bob'', t_email = ''bob@example.com'',
                t_skills = Some [''Java''], t_profile = Some [],
                t_level = Some [], t_area = None \<rparr>"

definition talent_c :: talent where
  "talent_c = \<lparr> t_id = 3, t_name = Some ''Carla'', t_email = ''carla@example.com'',
                t_skills = Some [''SQL'', ''Go''], t_profile = Some ''Analista'',
                t_level = Some [], t_area = None \<rparr>"

definition talent_q :: talent where
  "talent_q = \<lparr> t_id = 4, t_name = Some ''Davi'', t_email = ''davi@example.com'',
                t_skills = Some [''Rust''], t_profile = Some [],
                t_level = Some ''qualquer'', t_area = Some ''dados'' \<rparr>"

definition talent_pool :: "talent list" where
  "talent_pool = [talent_b, talent_c, talent_a]"

definition criteria_senior :: jval where
  "criteria_senior =
     JObj [(''skills'', JArr [JStr ''Python'', JStr ''Go'']), (''level'', JStr ''senior''),
           (''area'', JStr [])]"

definition criteria_any :: jval where
  "criteria_any = JObj [(''skills'', JArr []), (''level'', JStr ''qualquer''), (''area'', JStr [])]"

definition criteria_reply :: string where
  \<open>criteria_reply = ''{"skills": ["Python", "Go"], "level": "senior", "area": ""}''\<close>

definition loads_criteria :: "string \<Rightarrow> jval option" where
  \<open>loads_criteria s =
     (if s = ''{"skills": ["Python", "Go"], "level": "senior", "area": ""}''
      then Some criteria_senior else None)\<close>

text \<open>
  A database with three candidates and an employee, one job that requires Python and SQL,
  and drivers: one that never fails, one on which every statement raises, and one with a
  single fault at a given call. The model service is down.
\<close>

definition db0 :: dbstate where
  "db0 = \<lparr> users =
             [\<lparr> u_id = 1, u_nome = ''Ana'', u_email = ''ana@example.com'', u_role = ''candidate'' \<rparr>,
              \<lparr> u_id = 2, u_nome = ''Bob'', u_email = ''bob@example.com'', u_role = ''candidate'' \<rparr>,
              \<lparr> u_id = 3, u_nome = ''Carla'', u_email = ''carla@example.com'', u_role = ''candidate'' \<rparr>,
              \<lparr> u_id = 4, u_nome = ''Rita'', u_email = ''rita@example.com'', u_role = ''employee'' \<rparr>],
           candidate_skills =
             [(1, ''Python'', 9 / 10), (1, ''SQL'', 8 / 10), (1, ''React'', 5 / 10),
              (2, ''Java'', 7 / 10), (3, ''python'', 6 / 10), (3, ''SQL'', 5 / 10)],
           jobs = [\<lparr> j_id = 10, j_titulo = ''Backend'' \<rparr>],
           job_skills = [(10, ''Python''), (10, ''SQL'')],
           model_results = [],
           comments_table = None,
           db_user = ''RH'',
           next_id = 1,
           now = 1000,
           in_use = 0,
           calls = 0,
           error_log = [] \<rparr>"

definition scalar_bind :: "jval \<Rightarrow> bool" where
  "scalar_bind v = (case v of JArr _ \<Rightarrow> False | JObj _ \<Rightarrow> False | _ \<Rightarrow> True)"

definition driver_ok :: driver where
  "driver_ok = \<lparr> fault_at = (\<lambda>k. NoFault), out_value = (\<lambda>i. PyList [i]),
                 fresh_value = PyNone, bindable = scalar_bind \<rparr>"

definition driver_query_fails :: driver where
  "driver_query_fails = driver_ok \<lparr> fault_at := (\<lambda>k. ExecuteFails) \<rparr>"

definition driver_fails_at :: "nat \<Rightarrow> fault \<Rightarrow> driver" where
  "driver_fails_at n f = driver_ok \<lparr> fault_at := (\<lambda>k. if k = n then f else NoFault) \<rparr>"

definition llm_down :: "candidate_data \<Rightarrow> job_data \<Rightarrow> completion" where
  "llm_down c j = ApiError"


definition request_all :: ranking_request where
  "request_all = \<lparr> rq_job_id = 10, rq_limit = Some 10, rq_min_compatibility = Some 0 \<rparr>"






section \<open>Properties of the fallback heuristic\<close>

lemma set_common_skills: "set (common_skills cs js) = set cs \<inter> set js"
  by (auto simp: common_skills_def)

lemma distinct_common_skills: "distinct (common_skills cs js)"
  by (simp add: common_skills_def)

lemma professional_score_formula:
  "professional_score cs js =
     (if set js = {} then 0
      else 100 * real (card (set cs \<inter> set js)) / real (card (set js)))"
  by (simp add: professional_score_def)

lemma heuristic_fields:
  assumes "r = get_fallback_analysis cand job \<or> r = extract_info_from_text txt cand job"
  shows "professional_fit_score r =
           professional_score (dict_get (cd_skills cand) []) (dict_get (jd_required_skills job) [])"
    and "compatibility_score r = professional_fit_score r * (7 / 10)"
    and "cultural_fit_score r = 50"
    and "recommendation r = JStr ''EM_ANALISE''"
    and "strengths r = JArr (map JStr (common_skills (dict_get (cd_skills cand) [])
                                        (dict_get (jd_required_skills job) [])))"
    and "red_flags r = JArr []"
    and "suggested_questions r = JArr []"
  using assms by (auto simp: get_fallback_analysis_def extract_info_from_text_def Let_def)

text \<open>
  Claim C1. Both fallback analyses, the one used when the model service fails
  (\<^verbatim>\<open>_get_fallback_analysis\<close>) and the one used when its reply is not JSON
  (\<^verbatim>\<open>_extract_info_from_text\<close>), return: a professional-fit score of
  100 times the number of skills common to the candidate and the job, divided by the number of
  required skills, or 0 when the job requires none; a compatibility score of 0.7 times the
  professional-fit score; a cultural-fit score of 50; the recommendation \<^verbatim>\<open>EM_ANALISE\<close>
  (under review); as strengths the matched skills, each once; no red flags and no suggested
  questions. The skills are compared as sets of strings, case-sensitively.
\<close>

theorem fallback_analysis_values:
  "\<forall>r \<in> {get_fallback_analysis cand job, extract_info_from_text txt cand job}.
     professional_fit_score r =
       (if set (dict_get (jd_required_skills job) []) = {} then 0
        else 100 * real (card (set (dict_get (cd_skills cand) []) \<inter>
                               set (dict_get (jd_required_skills job) [])))
             / real (card (set (dict_get (jd_required_skills job) [])))) \<and>
     compatibility_score r = professional_fit_score r * (7 / 10) \<and>
     cultural_fit_score r = 50 \<and>
     recommendation r = JStr ''EM_ANALISE'' \<and>
     (\<exists>matched. strengths r = JArr (map JStr matched) \<and> distinct matched \<and>
        set matched = set (dict_get (cd_skills cand) []) \<inter>
                      set (dict_get (jd_required_skills job) [])) \<and>
     red_flags r = JArr [] \<and>
     suggested_questions r = JArr []"
proof
  fix r
  assume "r \<in> {get_fallback_analysis cand job, extract_info_from_text txt cand job}"
  then have r: "r = get_fallback_analysis cand job \<or> r = extract_info_from_text txt cand job"
    by auto
  note f = heuristic_fields [OF r]
  have "\<exists>matched. strengths r = JArr (map JStr matched) \<and> distinct matched \<and>
        set matched = set (dict_get (cd_skills cand) []) \<inter>
                      set (dict_get (jd_required_skills job) [])"
    using f(5) distinct_common_skills set_common_skills by blast
  with f show "professional_fit_score r =
       (if set (dict_get (jd_required_skills job) []) = {} then 0
        else 100 * real (card (set (dict_get (cd_skills cand) []) \<inter>
                               set (dict_get (jd_required_skills job) [])))
             / real (card (set (dict_get (jd_required_skills job) [])))) \<and>
     compatibility_score r = professional_fit_score r * (7 / 10) \<and>
     cultural_fit_score r = 50 \<and>
     recommendation r = JStr ''EM_ANALISE'' \<and>
     (\<exists>matched. strengths r = JArr (map JStr matched) \<and> distinct matched \<and>
        set matched = set (dict_get (cd_skills cand) []) \<inter>
                      set (dict_get (jd_required_skills job) [])) \<and>
     red_flags r = JArr [] \<and>
     suggested_questions r = JArr []"
    by (simp add: professional_score_formula)
qed

theorem fallback_analysis_values_witness:
  "get_fallback_analysis cand_a job_ps \<in>
     {get_fallback_analysis cand_a job_ps, extract_info_from_text ''no json'' cand_a job_ps} \<and>
   professional_fit_score (get_fallback_analysis cand_a job_ps) = 100 \<and>
   compatibility_score (get_fallback_analysis cand_a job_ps) = 70 \<and>
   cultural_fit_score (get_fallback_analysis cand_a job_ps) = 50 \<and>
   professional_fit_score (get_fallback_analysis cand_b job_ps) = 0 \<and>
   professional_fit_score (extract_info_from_text ''no json'' cand_c job_ps) = 50 \<and>
   compatibility_score (extract_info_from_text ''no json'' cand_c job_ps) = 35"
proof -
  have m: "get_fallback_analysis cand_a job_ps \<in>
     {get_fallback_analysis cand_a job_ps, extract_info_from_text ''no json'' cand_a job_ps}"
    by simp
  have va: "(if set (dict_get (jd_required_skills job_ps) []) = {} then 0
        else 100 * real (card (set (dict_get (cd_skills cand_a) []) \<inter>
                               set (dict_get (jd_required_skills job_ps) [])))
             / real (card (set (dict_get (jd_required_skills job_ps) [])))) = (100::real)"
    by code_simp
  have vb: "(if set (dict_get (jd_required_skills job_ps) []) = {} then 0
        else 100 * real (card (set (dict_get (cd_skills cand_b) []) \<inter>
                               set (dict_get (jd_required_skills job_ps) [])))
             / real (card (set (dict_get (jd_required_skills job_ps) [])))) = (0::real)"
    by code_simp
  have vc: "(if set (dict_get (jd_required_skills job_ps) []) = {} then 0
        else 100 * real (card (set (dict_get (cd_skills cand_c) []) \<inter>
                               set (dict_get (jd_required_skills job_ps) [])))
             / real (card (set (dict_get (jd_required_skills job_ps) [])))) = (50::real)"
    by code_simp
  from fallback_analysis_values [of cand_a job_ps "''no json''", THEN bspec, OF m]
  have a: "professional_fit_score (get_fallback_analysis cand_a job_ps) = 100 \<and>
           compatibility_score (get_fallback_analysis cand_a job_ps) = 70 \<and>
           cultural_fit_score (get_fallback_analysis cand_a job_ps) = 50"
    unfolding va by simp
  from fallback_analysis_values [of cand_b job_ps "''no json''"]
  have b: "professional_fit_score (get_fallback_analysis cand_b job_ps) = 0"
    unfolding vb by simp
  from fallback_analysis_values [of cand_c job_ps "''no json''"]
  have c: "professional_fit_score (extract_info_from_text ''no json'' cand_c job_ps) = 50 \<and>
           compatibility_score (extract_info_from_text ''no json'' cand_c job_ps) = 35"
    unfolding vc by simp
  from m a b c show ?thesis by simp
qed

section \<open>Properties of the scorer\<close>

lemma professional_score_bounds: "0 \<le> professional_score cs js \<and> professional_score cs js \<le> 100"
proof -
  have "card (set cs \<inter> set js) \<le> card (set js)"
    by (simp add: card_mono)
  then have "real (card (set cs \<inter> set js)) \<le> real (card (set js))" by simp
  moreover have "set js \<noteq> {} \<Longrightarrow> 0 < real (card (set js))"
    by (simp add: card_gt_0_iff)
  ultimately show ?thesis
    by (auto simp: professional_score_def divide_le_eq)
qed

lemma fallback_valid:
  assumes "r = get_fallback_analysis cand job \<or> r = extract_info_from_text txt cand job"
  shows "0 \<le> compatibility_score r \<and> compatibility_score r \<le> 100 \<and>
         recommendation r \<in> {JStr ''APROVADO'', JStr ''REPROVADO'', JStr ''EM_ANALISE''} \<and>
         (\<exists>xs. red_flags r = JArr xs) \<and> (\<exists>xs. strengths r = JArr xs)"
proof -
  note f = heuristic_fields [OF assms]
  have b: "0 \<le> professional_fit_score r \<and> professional_fit_score r \<le> 100"
    unfolding f(1) by (rule professional_score_bounds)
  then have "0 \<le> compatibility_score r \<and> compatibility_score r \<le> 100"
    unfolding f(2) by simp
  then show ?thesis using f(4,5,6) by simp
qed

lemma parse_cases:
  "parse_analysis_response loads to_float t cand job = Inr a \<Longrightarrow>
     (loads (clean_response t) = None \<and> a = extract_info_from_text (clean_response t) cand job) \<or>
     (\<exists>kvs c u p. loads (clean_response t) = Some (JObj kvs) \<and>
        py_float to_float (dict_get (map_of kvs ''compatibility_score'') (JNum 0)) = Inr c \<and>
        py_float to_float (dict_get (map_of kvs ''cultural_fit_score'') (JNum 0)) = Inr u \<and>
        py_float to_float (dict_get (map_of kvs ''professional_fit_score'') (JNum 0)) = Inr p \<and>
        a = \<lparr> compatibility_score = c, cultural_fit_score = u, professional_fit_score = p,
              ai_analysis = dict_get (map_of kvs ''analysis'') (JStr []),
              red_flags = dict_get (map_of kvs ''red_flags'') (JArr []),
              strengths = dict_get (map_of kvs ''strengths'') (JArr []),
              recommendation = dict_get (map_of kvs ''recommendation'') (JStr ''EM_ANALISE''),
              suggested_questions = dict_get (map_of kvs ''suggested_questions'') (JArr []) \<rparr>)"
  by (auto simp: parse_analysis_response_def Let_def split: option.splits jval.splits sum.splits)

lemma analyze_cases:
  "analyze_candidate_compatibility loads to_float response cand job = get_fallback_analysis cand job \<or>
   (\<exists>t. response = Content t \<and>
      parse_analysis_response loads to_float t cand job =
        Inr (analyze_candidate_compatibility loads to_float response cand job))"
  by (auto simp: analyze_candidate_compatibility_def split: completion.splits sum.splits)


text \<open>
  Claim C2, as amended. The result of \<^verbatim>\<open>analyze_candidate_compatibility\<close> has a
  compatibility score within 0 and 100, a recommendation among \<^verbatim>\<open>APROVADO\<close>,
  \<^verbatim>\<open>REPROVADO\<close> and \<^verbatim>\<open>EM_ANALISE\<close>, and lists as red flags and strengths, on every
  fallback path; on a reply that loads as a JSON object it has them provided the reply's own
  values do: the score it carries converts to a number within 0 and 100, its recommendation
  (\<^verbatim>\<open>EM_ANALISE\<close> when absent) is one of the three, and its red flags and strengths (the
  empty list when absent) are arrays. The parsed values are handed on unchecked.
\<close>

theorem analysis_valid_when_reply_valid:
  assumes "\<forall>t kvs. response = Content t \<and> loads (clean_response t) = Some (JObj kvs) \<longrightarrow>
             (\<forall>c. py_float to_float (dict_get (map_of kvs ''compatibility_score'') (JNum 0)) = Inr c
                  \<longrightarrow> 0 \<le> c \<and> c \<le> 100) \<and>
             dict_get (map_of kvs ''recommendation'') (JStr ''EM_ANALISE'')
               \<in> {JStr ''APROVADO'', JStr ''REPROVADO'', JStr ''EM_ANALISE''} \<and>
             (\<exists>xs. dict_get (map_of kvs ''red_flags'') (JArr []) = JArr xs) \<and>
             (\<exists>xs. dict_get (map_of kvs ''strengths'') (JArr []) = JArr xs)"
  shows "0 \<le> compatibility_score (analyze_candidate_compatibility loads to_float response cand job) \<and>
         compatibility_score (analyze_candidate_compatibility loads to_float response cand job) \<le> 100 \<and>
         recommendation (analyze_candidate_compatibility loads to_float response cand job)
           \<in> {JStr ''APROVADO'', JStr ''REPROVADO'', JStr ''EM_ANALISE''} \<and>
         (\<exists>xs. red_flags (analyze_candidate_compatibility loads to_float response cand job) = JArr xs) \<and>
         (\<exists>xs. strengths (analyze_candidate_compatibility loads to_float response cand job) = JArr xs)"
proof -
  let ?r = "analyze_candidate_compatibility loads to_float response cand job"
  from analyze_cases [of loads to_float response cand job]
  consider (fallback) "?r = get_fallback_analysis cand job"
    | (parsed) t where "response = Content t"
        and "parse_analysis_response loads to_float t cand job = Inr ?r"
    by blast
  then show ?thesis
  proof cases
    case fallback
    then show ?thesis using fallback_valid [of ?r cand job] by blast
  next
    case parsed
    from parse_cases [OF parsed(2)]
    consider (prose) "?r = extract_info_from_text (clean_response t) cand job"
      | (obj) kvs c u p where "loads (clean_response t) = Some (JObj kvs)"
          and "py_float to_float (dict_get (map_of kvs ''compatibility_score'') (JNum 0)) = Inr c"
          and "?r = \<lparr> compatibility_score = c, cultural_fit_score = u, professional_fit_score = p,
              ai_analysis = dict_get (map_of kvs ''analysis'') (JStr []),
              red_flags = dict_get (map_of kvs ''red_flags'') (JArr []),
              strengths = dict_get (map_of kvs ''strengths'') (JArr []),
              recommendation = dict_get (map_of kvs ''recommendation'') (JStr ''EM_ANALISE''),
              suggested_questions = dict_get (map_of kvs ''suggested_questions'') (JArr []) \<rparr>"
      by blast
    then show ?thesis
    proof cases
      case prose
      then show ?thesis
        using fallback_valid [of ?r cand job "clean_response t"] by blast
    next
      case obj
      from assms parsed(1) obj(1)
      have h: "(\<forall>c. py_float to_float (dict_get (map_of kvs ''compatibility_score'') (JNum 0)) = Inr c
                  \<longrightarrow> 0 \<le> c \<and> c \<le> 100) \<and>
             dict_get (map_of kvs ''recommendation'') (JStr ''EM_ANALISE'')
               \<in> {JStr ''APROVADO'', JStr ''REPROVADO'', JStr ''EM_ANALISE''} \<and>
             (\<exists>xs. dict_get (map_of kvs ''red_flags'') (JArr []) = JArr xs) \<and>
             (\<exists>xs. dict_get (map_of kvs ''strengths'') (JArr []) = JArr xs)"
        by blast
      then have "0 \<le> c \<and> c \<le> 100" using obj(2) by blast
      with h show ?thesis
        by (subst (1 2 3 4 5) obj(3)) simp
    qed
  qed
qed

lemma loads_demo_partial:
  "loads_demo (clean_response reply_partial) =
     Some (JObj [(''compatibility_score'', JNum 85), (''recommendation'', JStr ''APROVADO'')])"
  by code_simp

text \<open>
  A reply inside a code fence that gives a score of 85 and the recommendation
  \<^verbatim>\<open>APROVADO\<close> meets the condition.
\<close>

theorem analysis_valid_when_reply_valid_witness:
  "compatibility_score
     (analyze_candidate_compatibility loads_demo to_float_demo (Content reply_partial) cand_a job_ps) = 85 \<and>
   0 \<le> compatibility_score
     (analyze_candidate_compatibility loads_demo to_float_demo (Content reply_partial) cand_a job_ps) \<and>
   compatibility_score
     (analyze_candidate_compatibility loads_demo to_float_demo (Content reply_partial) cand_a job_ps) \<le> 100 \<and>
   recommendation
     (analyze_candidate_compatibility loads_demo to_float_demo (Content reply_partial) cand_a job_ps)
       \<in> {JStr ''APROVADO'', JStr ''REPROVADO'', JStr ''EM_ANALISE''}"
proof -
  have v: "compatibility_score
     (analyze_candidate_compatibility loads_demo to_float_demo (Content reply_partial) cand_a job_ps) = 85"
    by code_simp
  have "\<forall>t kvs. Content reply_partial = Content t \<and> loads_demo (clean_response t) = Some (JObj kvs) \<longrightarrow>
             (\<forall>c. py_float to_float_demo (dict_get (map_of kvs ''compatibility_score'') (JNum 0)) = Inr c
                  \<longrightarrow> 0 \<le> c \<and> c \<le> 100) \<and>
             dict_get (map_of kvs ''recommendation'') (JStr ''EM_ANALISE'')
               \<in> {JStr ''APROVADO'', JStr ''REPROVADO'', JStr ''EM_ANALISE''} \<and>
             (\<exists>xs. dict_get (map_of kvs ''red_flags'') (JArr []) = JArr xs) \<and>
             (\<exists>xs. dict_get (map_of kvs ''strengths'') (JArr []) = JArr xs)"
    by (auto simp: loads_demo_partial dict_get_def py_float_def)
  from analysis_valid_when_reply_valid [OF this, of cand_a job_ps] v
  show ?thesis by simp
qed

text \<open>
  Claim C2 as stated fails on parsed replies: a reply with the score 150 is returned with the
  score 150, and a reply with the recommendation \<^verbatim>\<open>TALVEZ\<close> and \<^verbatim>\<open>null\<close> red flags
  is returned with both.
\<close>

theorem analysis_out_of_range_counterexample:
  "compatibility_score
     (analyze_candidate_compatibility loads_demo to_float_demo (Content reply_150) cand_a job_ps) = 150 \<and>
   \<not> compatibility_score
     (analyze_candidate_compatibility loads_demo to_float_demo (Content reply_150) cand_a job_ps) \<le> 100 \<and>
   recommendation
     (analyze_candidate_compatibility loads_demo to_float_demo (Content reply_null_flags) cand_a job_ps)
       = JStr ''TALVEZ'' \<and>
   recommendation
     (analyze_candidate_compatibility loads_demo to_float_demo (Content reply_null_flags) cand_a job_ps)
       \<notin> {JStr ''APROVADO'', JStr ''REPROVADO'', JStr ''EM_ANALISE''} \<and>
   red_flags
     (analyze_candidate_compatibility loads_demo to_float_demo (Content reply_null_flags) cand_a job_ps)
       = JNull"
proof -
  have a: "compatibility_score
     (analyze_candidate_compatibility loads_demo to_float_demo (Content reply_150) cand_a job_ps) = 150"
    by code_simp
  have b: "recommendation
     (analyze_candidate_compatibility loads_demo to_float_demo (Content reply_null_flags) cand_a job_ps)
       = JStr ''TALVEZ''"
    by code_simp
  have c: "red_flags
     (analyze_candidate_compatibility loads_demo to_float_demo (Content reply_null_flags) cand_a job_ps)
       = JNull"
    by code_simp
  show ?thesis unfolding a b c by simp
qed


lemma py_float_default: "py_float to_float (JNum 0) = Inr 0"
  by (simp add: py_float_def)

lemma parse_object:
  assumes "loads (clean_response t) = Some (JObj kvs)"
  shows "parse_analysis_response loads to_float t cand job =
          (case py_float to_float (dict_get (map_of kvs ''compatibility_score'') (JNum 0)) of
             Inl e \<Rightarrow> Inl e
           | Inr c \<Rightarrow>
          (case py_float to_float (dict_get (map_of kvs ''cultural_fit_score'') (JNum 0)) of
             Inl e \<Rightarrow> Inl e
           | Inr u \<Rightarrow>
          (case py_float to_float (dict_get (map_of kvs ''professional_fit_score'') (JNum 0)) of
             Inl e \<Rightarrow> Inl e
           | Inr p \<Rightarrow>
               Inr \<lparr> compatibility_score = c,
                     cultural_fit_score = u,
                     professional_fit_score = p,
                     ai_analysis = dict_get (map_of kvs ''analysis'') (JStr []),
                     red_flags = dict_get (map_of kvs ''red_flags'') (JArr []),
                     strengths = dict_get (map_of kvs ''strengths'') (JArr []),
                     recommendation = dict_get (map_of kvs ''recommendation'') (JStr ''EM_ANALISE''),
                     suggested_questions =
                       dict_get (map_of kvs ''suggested_questions'') (JArr []) \<rparr>)))"
  using assms by (simp add: parse_analysis_response_def Let_def)

lemma parse_error_cause:
  assumes "loads (clean_response t) = Some (JObj kvs)"
    and "parse_analysis_response loads to_float t cand job = Inl e"
  shows "\<exists>k v. k \<in> {''compatibility_score'', ''cultural_fit_score'', ''professional_fit_score''} \<and>
           map_of kvs k = Some v \<and> py_float to_float v = Inl e"
proof -
  have d: "py_float to_float (dict_get (map_of kvs k) (JNum 0)) = Inl e \<Longrightarrow>
           \<exists>v. map_of kvs k = Some v \<and> py_float to_float v = Inl e" for k
    by (cases "map_of kvs k") (simp_all add: dict_get_def py_float_default)
  from assms(2) have
    "py_float to_float (dict_get (map_of kvs ''compatibility_score'') (JNum 0)) = Inl e \<or>
     py_float to_float (dict_get (map_of kvs ''cultural_fit_score'') (JNum 0)) = Inl e \<or>
     py_float to_float (dict_get (map_of kvs ''professional_fit_score'') (JNum 0)) = Inl e"
    unfolding parse_object [where loads = loads and t = t, OF assms(1)]
    by (simp split: sum.splits)
  then show ?thesis using d by blast
qed


lemma parse_success_defaults:
  assumes l: "loads (clean_response t) = Some (JObj kvs)"
    and r: "parse_analysis_response loads to_float t cand job = Inr a"
  shows "map_of kvs ''compatibility_score'' = None \<longrightarrow> compatibility_score a = 0"
    and "map_of kvs ''cultural_fit_score'' = None \<longrightarrow> cultural_fit_score a = 0"
    and "map_of kvs ''professional_fit_score'' = None \<longrightarrow> professional_fit_score a = 0"
    and "map_of kvs ''analysis'' = None \<longrightarrow> ai_analysis a = JStr []"
    and "map_of kvs ''red_flags'' = None \<longrightarrow> red_flags a = JArr []"
    and "map_of kvs ''strengths'' = None \<longrightarrow> strengths a = JArr []"
    and "map_of kvs ''suggested_questions'' = None \<longrightarrow> suggested_questions a = JArr []"
    and "map_of kvs ''recommendation'' = None \<longrightarrow> recommendation a = JStr ''EM_ANALISE''"
proof -
  from parse_cases [OF r] l
  obtain c u p where
    c: "py_float to_float (dict_get (map_of kvs ''compatibility_score'') (JNum 0)) = Inr c" and
    u: "py_float to_float (dict_get (map_of kvs ''cultural_fit_score'') (JNum 0)) = Inr u" and
    p: "py_float to_float (dict_get (map_of kvs ''professional_fit_score'') (JNum 0)) = Inr p" and
    a: "a = \<lparr> compatibility_score = c, cultural_fit_score = u, professional_fit_score = p,
              ai_analysis = dict_get (map_of kvs ''analysis'') (JStr []),
              red_flags = dict_get (map_of kvs ''red_flags'') (JArr []),
              strengths = dict_get (map_of kvs ''strengths'') (JArr []),
              recommendation = dict_get (map_of kvs ''recommendation'') (JStr ''EM_ANALISE''),
              suggested_questions = dict_get (map_of kvs ''suggested_questions'') (JArr []) \<rparr>"
    by fastforce
  from c show "map_of kvs ''compatibility_score'' = None \<longrightarrow> compatibility_score a = 0"
    by (auto simp: a dict_get_def py_float_default)
  from u show "map_of kvs ''cultural_fit_score'' = None \<longrightarrow> cultural_fit_score a = 0"
    by (auto simp: a dict_get_def py_float_default)
  from p show "map_of kvs ''professional_fit_score'' = None \<longrightarrow> professional_fit_score a = 0"
    by (auto simp: a dict_get_def py_float_default)
  show "map_of kvs ''analysis'' = None \<longrightarrow> ai_analysis a = JStr []"
    by (simp add: a dict_get_def)
  show "map_of kvs ''red_flags'' = None \<longrightarrow> red_flags a = JArr []"
    by (simp add: a dict_get_def)
  show "map_of kvs ''strengths'' = None \<longrightarrow> strengths a = JArr []"
    by (simp add: a dict_get_def)
  show "map_of kvs ''suggested_questions'' = None \<longrightarrow> suggested_questions a = JArr []"
    by (simp add: a dict_get_def)
  show "map_of kvs ''recommendation'' = None \<longrightarrow> recommendation a = JStr ''EM_ANALISE''"
    by (simp add: a dict_get_def)
qed


lemma analyze_unparsable:
  assumes "loads (clean_response t) = None"
  shows "analyze_candidate_compatibility loads to_float (Content t) cand job =
           extract_info_from_text (clean_response t) cand job"
  using assms
  by (simp add: analyze_candidate_compatibility_def parse_analysis_response_def Let_def)

lemma analyze_parsed:
  "parse_analysis_response loads to_float t cand job = Inr a \<Longrightarrow>
   analyze_candidate_compatibility loads to_float (Content t) cand job = a"
  by (simp add: analyze_candidate_compatibility_def)

lemma analyze_parse_error:
  "parse_analysis_response loads to_float t cand job = Inl e \<Longrightarrow>
   analyze_candidate_compatibility loads to_float (Content t) cand job =
     get_fallback_analysis cand job"
  by (simp add: analyze_candidate_compatibility_def)

text \<open>
  Claim C6. \<^verbatim>\<open>analyze_candidate_compatibility\<close> always returns an analysis: its result is
  the fallback analysis or what \<^verbatim>\<open>_parse_analysis_response\<close> returned. A reply that does
  not load as JSON is answered by the local heuristic on the cleaned text. When the reply
  loads as an object and parsing succeeds, every absent key has its default: 0 for the three
  scores, the empty string for the analysis, the empty list for red flags, strengths and
  suggested questions, \<^verbatim>\<open>EM_ANALISE\<close> for the recommendation. An absent key never raises:
  when parsing an object fails, a score key that is present holds a value \<^verbatim>\<open>float\<close>
  refuses, and the failure is answered by the fallback analysis.
\<close>

theorem analyze_recovers_parse_failures:
  "(loads (clean_response t) = None \<longrightarrow>
      analyze_candidate_compatibility loads to_float (Content t) cand job =
        extract_info_from_text (clean_response t) cand job) \<and>
   (\<forall>kvs a. loads (clean_response t) = Some (JObj kvs) \<and>
        parse_analysis_response loads to_float t cand job = Inr a \<longrightarrow>
      analyze_candidate_compatibility loads to_float (Content t) cand job = a \<and>
      (map_of kvs ''compatibility_score'' = None \<longrightarrow> compatibility_score a = 0) \<and>
      (map_of kvs ''cultural_fit_score'' = None \<longrightarrow> cultural_fit_score a = 0) \<and>
      (map_of kvs ''professional_fit_score'' = None \<longrightarrow> professional_fit_score a = 0) \<and>
      (map_of kvs ''analysis'' = None \<longrightarrow> ai_analysis a = JStr []) \<and>
      (map_of kvs ''red_flags'' = None \<longrightarrow> red_flags a = JArr []) \<and>
      (map_of kvs ''strengths'' = None \<longrightarrow> strengths a = JArr []) \<and>
      (map_of kvs ''suggested_questions'' = None \<longrightarrow> suggested_questions a = JArr []) \<and>
      (map_of kvs ''recommendation'' = None \<longrightarrow> recommendation a = JStr ''EM_ANALISE'')) \<and>
   (\<forall>kvs e. loads (clean_response t) = Some (JObj kvs) \<and>
        parse_analysis_response loads to_float t cand job = Inl e \<longrightarrow>
      (\<exists>k v. k \<in> {''compatibility_score'', ''cultural_fit_score'', ''professional_fit_score''} \<and>
         map_of kvs k = Some v \<and> py_float to_float v = Inl e)) \<and>
   (\<forall>e. parse_analysis_response loads to_float t cand job = Inl e \<longrightarrow>
      analyze_candidate_compatibility loads to_float (Content t) cand job =
        get_fallback_analysis cand job) \<and>
   (\<forall>response.
      analyze_candidate_compatibility loads to_float response cand job =
        get_fallback_analysis cand job \<or>
      (\<exists>t'. response = Content t' \<and>
         parse_analysis_response loads to_float t' cand job =
           Inr (analyze_candidate_compatibility loads to_float response cand job)))"
  (is "?unparsable \<and> ?defaults \<and> ?cause \<and> ?caught \<and> ?total")
proof -
  have 1: ?unparsable
    using analyze_unparsable [of loads t to_float cand job] by blast
  have 2: ?defaults
  proof (intro allI impI)
    fix kvs a
    assume h: "loads (clean_response t) = Some (JObj kvs) \<and>
        parse_analysis_response loads to_float t cand job = Inr a"
    then have l: "loads (clean_response t) = Some (JObj kvs)"
      and r: "parse_analysis_response loads to_float t cand job = Inr a"
      by blast+
    note d = parse_success_defaults [where loads = loads and t = t, OF l r]
    from analyze_parsed [OF r] d(1) d(2) d(3) d(4) d(5) d(6) d(7) d(8)
    show "analyze_candidate_compatibility loads to_float (Content t) cand job = a \<and>
      (map_of kvs ''compatibility_score'' = None \<longrightarrow> compatibility_score a = 0) \<and>
      (map_of kvs ''cultural_fit_score'' = None \<longrightarrow> cultural_fit_score a = 0) \<and>
      (map_of kvs ''professional_fit_score'' = None \<longrightarrow> professional_fit_score a = 0) \<and>
      (map_of kvs ''analysis'' = None \<longrightarrow> ai_analysis a = JStr []) \<and>
      (map_of kvs ''red_flags'' = None \<longrightarrow> red_flags a = JArr []) \<and>
      (map_of kvs ''strengths'' = None \<longrightarrow> strengths a = JArr []) \<and>
      (map_of kvs ''suggested_questions'' = None \<longrightarrow> suggested_questions a = JArr []) \<and>
      (map_of kvs ''recommendation'' = None \<longrightarrow> recommendation a = JStr ''EM_ANALISE'')"
      by (intro conjI)
  qed
  have 3: ?cause
    using parse_error_cause [where loads = loads and t = t and to_float = to_float
        and cand = cand and job = job]
    by blast
  have 4: ?caught
    using analyze_parse_error [of loads to_float t cand job] by blast
  have 5: ?total
    using analyze_cases [of loads to_float _ cand job] by blast
  from 1 2 3 4 5 show ?thesis by (intro conjI)
qed


theorem analyze_recovers_parse_failures_witness:
  "loads_demo (clean_response reply_prose) = None \<and>
   analyze_candidate_compatibility loads_demo to_float_demo (Content reply_prose) cand_a job_ps =
     extract_info_from_text (clean_response reply_prose) cand_a job_ps \<and>
   analyze_candidate_compatibility loads_demo to_float_demo (Content reply_partial) cand_a job_ps =
     \<lparr> compatibility_score = 85, cultural_fit_score = 0, professional_fit_score = 0,
       ai_analysis = JStr [], red_flags = JArr [], strengths = JArr [],
       recommendation = JStr ''APROVADO'', suggested_questions = JArr [] \<rparr>"
proof -
  let ?a = "\<lparr> compatibility_score = 85, cultural_fit_score = 0, professional_fit_score = 0,
       ai_analysis = JStr [], red_flags = JArr [], strengths = JArr [],
       recommendation = JStr ''APROVADO'', suggested_questions = JArr [] \<rparr>"
  have n: "loads_demo (clean_response reply_prose) = None"
    by code_simp
  have p: "parse_analysis_response loads_demo to_float_demo reply_partial cand_a job_ps = Inr ?a"
    by code_simp
  from analyze_recovers_parse_failures [of loads_demo reply_prose to_float_demo cand_a job_ps] n
  have 1: "analyze_candidate_compatibility loads_demo to_float_demo (Content reply_prose) cand_a job_ps =
     extract_info_from_text (clean_response reply_prose) cand_a job_ps"
    by blast
  from analyze_recovers_parse_failures [of loads_demo reply_partial to_float_demo cand_a job_ps]
  have "\<forall>kvs a. loads_demo (clean_response reply_partial) = Some (JObj kvs) \<and>
        parse_analysis_response loads_demo to_float_demo reply_partial cand_a job_ps = Inr a \<longrightarrow>
      analyze_candidate_compatibility loads_demo to_float_demo (Content reply_partial) cand_a job_ps = a"
    by blast
  with loads_demo_partial p
  have 2: "analyze_candidate_compatibility loads_demo to_float_demo (Content reply_partial) cand_a job_ps = ?a"
    by blast
  from n 1 2 show ?thesis by (intro conjI)
qed

section \<open>Properties of the talent search\<close>

lemma startswith_prefix: "startswith s p = prefix p s"
  by (auto simp: startswith_def prefix_def) (metis append_eq_conv_conj)

lemma contains_sublist: "contains t q = sublist q t"
proof (induction t)
  case Nil
  then show ?case by simp
next
  case (Cons c cs)
  then show ?case
    by (simp add: startswith_prefix sublist_Cons_right)
qed

lemma mset_insort_desc: "mset (insort_desc f x xs) = add_mset x (mset xs)"
  by (induction xs) auto

lemma mset_sort_desc: "mset (sort_desc f xs) = mset xs"
  by (induction xs) (auto simp: sort_desc_def mset_insort_desc)

lemma set_sort_desc: "set (sort_desc f xs) = set xs"
  by (metis mset_sort_desc set_mset_mset)

lemma length_sort_desc: "length (sort_desc f xs) = length xs"
  by (metis mset_sort_desc size_mset)

lemma set_insort_desc: "set (insort_desc f x xs) = insert x (set xs)"
  by (metis mset_insort_desc set_mset_mset set_mset_add_mset_insert)

lemma sorted_insort_desc:
  "sorted_wrt (\<lambda>a b. f b \<le> f a) xs \<Longrightarrow> sorted_wrt (\<lambda>a b. f b \<le> f a) (insort_desc f x xs)"
  by (induction xs) (auto simp: set_insort_desc)

lemma sorted_sort_desc: "sorted_wrt (\<lambda>a b. f b \<le> f a) (sort_desc f xs)"
  by (induction xs) (auto simp: sort_desc_def sorted_insort_desc)

lemma filter_insort_desc:
  "sorted_wrt (\<lambda>a b. f b \<le> f a) xs \<Longrightarrow>
   filter (\<lambda>y. f y = k) (insort_desc f x xs) =
     (if f x = k then x # filter (\<lambda>y. f y = k) xs else filter (\<lambda>y. f y = k) xs)"
proof (induction xs)
  case Nil
  then show ?case by simp
next
  case (Cons y ys)
  from Cons.prems have s: "sorted_wrt (\<lambda>a b. f b \<le> f a) ys"
    by simp
  show ?case
  proof (cases "f y \<le> f x")
    case True
    then show ?thesis by simp
  next
    case False
    with Cons.IH [OF s] show ?thesis by auto
  qed
qed

lemma sort_desc_stable: "filter (\<lambda>x. f x = k) (sort_desc f xs) = filter (\<lambda>x. f x = k) xs"
proof (induction xs)
  case Nil
  then show ?case by (simp add: sort_desc_def)
next
  case (Cons x xs)
  have "sort_desc f (x # xs) = insort_desc f x (sort_desc f xs)"
    by (simp add: sort_desc_def)
  with Cons filter_insort_desc [OF sorted_sort_desc, of f k x xs] show ?case
    by simp
qed

lemma sorted_desc_index:
  fixes f :: "'a \<Rightarrow> 'k::linorder"
  assumes "sorted_wrt (\<lambda>a b. f b \<le> f a) xs" "i < length xs" "j < length xs" "f (xs ! j) < f (xs ! i)"
  shows "i < j"
proof (rule ccontr)
  assume "\<not> i < j"
  then have "j \<le> i" by simp
  then consider "j = i" | "j < i" by linarith
  then show False
  proof cases
    case 1
    with assms(4) show False by simp
  next
    case 2
    with assms(1,2) have "f (xs ! i) \<le> f (xs ! j)"
      by (simp add: sorted_wrt_iff_nth_less)
    with assms(4) show False by simp
  qed
qed

lemma overlap_ratio_bounds:
  fixes A B :: "'a set"
  assumes "finite B" "card B \<le> n"
  shows "0 \<le> real (card (A \<inter> B)) / real n \<and> real (card (A \<inter> B)) / real n \<le> 1"
proof -
  have "card (A \<inter> B) \<le> card B" using assms(1) by (simp add: card_mono)
  with assms(2) have "card (A \<inter> B) \<le> n" by simp
  then show ?thesis
    by (cases "n = 0") (simp_all add: divide_le_eq)
qed

lemma text_score_cases:
  "(sublist q (haystack c) \<longrightarrow> text_score q c = 100) \<and>
   (\<not> sublist q (haystack c) \<and> set (split_ws q) \<noteq> {} \<longrightarrow>
      text_score q c =
        real (card (set (split_ws q) \<inter> set (split_ws (haystack c)))) /
        real (card (set (split_ws q))) * 100) \<and>
   (\<not> sublist q (haystack c) \<and> set (split_ws q) = {} \<longrightarrow> text_score q c = 0)"
  by (simp add: text_score_def Let_def contains_sublist)

lemma text_score_unfold:
  "text_score q c =
     (if contains (haystack c) q then 100
      else if set (split_ws q) \<noteq> {}
      then real (card (set (split_ws q) \<inter> set (split_ws (haystack c)))) /
           real (card (set (split_ws q))) * 100
      else 0)"
  by (simp add: text_score_def Let_def)

lemma text_score_bounds: "0 \<le> text_score q c \<and> text_score q c \<le> 100"
proof -
  define r where "r = real (card (set (split_ws q) \<inter> set (split_ws (haystack c)))) /
        real (card (set (split_ws q)))"
  have "0 \<le> r \<and> r \<le> 1"
    unfolding r_def
    using overlap_ratio_bounds [of "set (split_ws q)" "card (set (split_ws q))" "set (split_ws (haystack c))"]
    by (simp add: Int_commute)
  then have "0 \<le> r * 100 \<and> r * 100 \<le> 100" by simp
  then show ?thesis
    unfolding text_score_unfold r_def [symmetric] by simp
qed

lemma text_score_partial:
  assumes "\<not> sublist q (haystack c)" "\<not> set (split_ws q) \<subseteq> set (split_ws (haystack c))"
  shows "text_score q c < 100"
proof -
  let ?Q = "set (split_ws q)" and ?T = "set (split_ws (haystack c))"
  define r where "r = real (card (?Q \<inter> ?T)) / real (card ?Q)"
  from assms(2) have ne: "?Q \<noteq> {}" by auto
  have "?Q \<inter> ?T \<subset> ?Q" using assms(2) by auto
  then have "card (?Q \<inter> ?T) < card ?Q"
    by (simp add: psubset_card_mono)
  then have "r < 1"
    unfolding r_def by simp
  then have "r * 100 < 100" by simp
  moreover have "text_score q c = r * 100"
    unfolding text_score_unfold r_def using assms(1) ne by (simp add: contains_sublist)
  ultimately show ?thesis by simp
qed

lemma set_simple_text_search:
  "set (simple_text_search candidates query) =
     {(c, s). c \<in> set candidates \<and> s = text_score (lower query) c \<and> 0 < s}"
  by (auto simp: simple_text_search_def Let_def set_sort_desc)

lemma sorted_simple_text_search:
  "sorted_wrt (\<lambda>a b. snd b \<le> snd a) (simple_text_search candidates query)"
  by (simp add: simple_text_search_def Let_def sorted_wrt_filter sorted_sort_desc)


lemma score_all_Inr:
  "score_all criteria cs = Inr r \<Longrightarrow>
     map fst r = cs \<and> (\<forall>p \<in> set r. criteria_score criteria (fst p) = Inr (snd p))"
proof (induction cs arbitrary: r)
  case Nil
  then show ?case by simp
next
  case (Cons c cs)
  from Cons.prems obtain s r' where
    s: "criteria_score criteria c = Inr s" and r': "score_all criteria cs = Inr r'"
    and r: "r = (c, s) # r'"
    by (auto split: sum.splits)
  from Cons.IH [OF r'] s r show ?case by simp
qed

lemma criteria_score_Inr:
  assumes "criteria_score criteria c = Inr s"
  shows "\<exists>kvs req lvl ar.
           criteria = JObj kvs \<and>
           lower_each (dict_get (map_of kvs ''skills'') (JArr [])) = Inr req \<and>
           get_lower kvs ''level'' = Inr lvl \<and>
           get_lower kvs ''area'' = Inr ar \<and>
           s = (if req \<noteq> []
                then real (card (set (map lower (dict_get (t_skills c) [])) \<inter> set req)) /
                     real (length req) * 50
                else 0)
             + (if lvl \<noteq> [] \<and> lvl \<noteq> ''qualquer'' \<and>
                   (sublist lvl (lower (dict_get (t_level c) [])) \<or>
                    sublist (lower (dict_get (t_level c) [])) lvl)
                then 30 else 0)
             + (if ar \<noteq> [] \<and> sublist ar (lower (dict_get (t_area c) [])) then 20 else 0)"
proof -
  from assms obtain kvs where k: "criteria = JObj kvs"
    by (cases criteria) (simp_all add: criteria_score_def)
  from assms k obtain req where
    req: "lower_each (dict_get (map_of kvs ''skills'') (JArr [])) = Inr req"
    by (cases "lower_each (dict_get (map_of kvs ''skills'') (JArr []))")
       (simp_all add: criteria_score_def)
  from assms k req obtain lvl where lvl: "get_lower kvs ''level'' = Inr lvl"
    by (cases "get_lower kvs ''level''") (simp_all add: criteria_score_def Let_def)
  from assms k req lvl obtain ar where ar: "get_lower kvs ''area'' = Inr ar"
    by (cases "get_lower kvs ''area''") (simp_all add: criteria_score_def Let_def)
  define sk where "sk = (if req \<noteq> []
                then real (card (set (map lower (dict_get (t_skills c) [])) \<inter> set req)) /
                     real (length req) * 50
                else 0)"
  define L where "L \<longleftrightarrow> lvl \<noteq> [] \<and> lvl \<noteq> ''qualquer'' \<and>
                   (sublist lvl (lower (dict_get (t_level c) [])) \<or>
                    sublist (lower (dict_get (t_level c) [])) lvl)"
  define A where "A \<longleftrightarrow> ar \<noteq> [] \<and> sublist ar (lower (dict_get (t_area c) []))"
  have "criteria_score criteria c =
          Inr (if A then (if L then sk + 30 else sk) + 20 else (if L then sk + 30 else sk))"
    unfolding criteria_score_def k Let_def sk_def L_def A_def
    by (simp add: req lvl ar contains_sublist)
  with assms have "s = (if A then (if L then sk + 30 else sk) + 20 else (if L then sk + 30 else sk))"
    by simp
  then have "s = sk + (if L then 30 else 0) + (if A then 20 else 0)"
    by (cases A; cases L; simp)
  then have "s = (if req \<noteq> []
                then real (card (set (map lower (dict_get (t_skills c) [])) \<inter> set req)) /
                     real (length req) * 50
                else 0)
             + (if lvl \<noteq> [] \<and> lvl \<noteq> ''qualquer'' \<and>
                   (sublist lvl (lower (dict_get (t_level c) [])) \<or>
                    sublist (lower (dict_get (t_level c) [])) lvl)
                then 30 else 0)
             + (if ar \<noteq> [] \<and> sublist ar (lower (dict_get (t_area c) [])) then 20 else 0)"
    unfolding sk_def L_def A_def .
  with k req lvl ar show ?thesis by blast
qed

lemma criteria_score_bounds:
  assumes "criteria_score criteria c = Inr s"
  shows "0 \<le> s \<and> s \<le> 100"
proof -
  from criteria_score_Inr [OF assms] obtain req lvl ar where
    s: "s = (if req \<noteq> []
                then real (card (set (map lower (dict_get (t_skills c) [])) \<inter> set req)) /
                     real (length req) * 50
                else 0)
             + (if lvl \<noteq> [] \<and> lvl \<noteq> ''qualquer'' \<and>
                   (sublist lvl (lower (dict_get (t_level c) [])) \<or>
                    sublist (lower (dict_get (t_level c) [])) lvl)
                then 30 else 0)
             + (if ar \<noteq> [] \<and> sublist ar (lower (dict_get (t_area c) [])) then 20 else 0)"
    by blast
  define r where "r = real (card (set (map lower (dict_get (t_skills c) [])) \<inter> set req)) /
                     real (length req)"
  have "0 \<le> r \<and> r \<le> 1"
    unfolding r_def
    by (rule overlap_ratio_bounds) (simp_all add: card_length)
  then have "0 \<le> r * 50 \<and> r * 50 \<le> 50" by simp
  then show ?thesis
    unfolding s r_def [symmetric] by (simp split: if_splits)
qed

lemma rank_Inr:
  assumes "rank_candidates_by_criteria candidates criteria = Inr result"
  shows "mset (map fst result) = mset candidates"
    and "sorted_wrt (\<lambda>a b. snd b \<le> snd a) result"
    and "\<forall>p \<in> set result. criteria_score criteria (fst p) = Inr (snd p)"
proof -
  from assms obtain scored where
    sc: "score_all criteria candidates = Inr scored" and r: "result = sort_desc snd scored"
    by (auto simp: rank_candidates_by_criteria_def split: sum.splits)
  note a = score_all_Inr [OF sc]
  have "mset (map fst result) = image_mset fst (mset result)" by simp
  also have "\<dots> = image_mset fst (mset scored)" by (simp add: r mset_sort_desc)
  also have "\<dots> = mset (map fst scored)" by simp
  finally show "mset (map fst result) = mset candidates" using a by simp
  show "sorted_wrt (\<lambda>a b. snd b \<le> snd a) result"
    unfolding r by (rule sorted_sort_desc)
  show "\<forall>p \<in> set result. criteria_score criteria (fst p) = Inr (snd p)"
    using a by (simp add: r set_sort_desc)
qed

lemma search_cases:
  "search_talent_pool loads response query candidates = simple_text_search candidates query \<or>
   (\<exists>criteria. rank_candidates_by_criteria candidates criteria =
      Inr (search_talent_pool loads response query candidates))"
  by (auto simp: search_talent_pool_def split: completion.splits option.splits sum.splits)

text \<open>
  Claim C4. In the text fallback, a candidate whose haystack (lower-cased name, skills and
  profile, joined by spaces) contains the lower-cased query as a contiguous substring scores
  exactly 100. Otherwise the score is the number of query words that are haystack words,
  divided by the number of query words, times 100, over the whitespace-separated word sets;
  a query without words scores 0. The output holds exactly the candidates whose score is not
  0, in descending order of score, so a substring match, at 100, comes before every candidate
  that is no substring match and lacks some query word, whose score is below 100.
\<close>

theorem simple_text_search_scores:
  "(\<forall>c \<in> set candidates.
      (sublist (lower query) (haystack c) \<longrightarrow> text_score (lower query) c = 100) \<and>
      (\<not> sublist (lower query) (haystack c) \<and> set (split_ws (lower query)) \<noteq> {} \<longrightarrow>
         text_score (lower query) c =
           real (card (set (split_ws (lower query)) \<inter> set (split_ws (haystack c)))) /
           real (card (set (split_ws (lower query)))) * 100) \<and>
      (\<not> sublist (lower query) (haystack c) \<and> set (split_ws (lower query)) = {} \<longrightarrow>
         text_score (lower query) c = 0)) \<and>
   set (simple_text_search candidates query) =
     {(c, s). c \<in> set candidates \<and> s = text_score (lower query) c \<and> s \<noteq> 0} \<and>
   sorted_wrt (\<lambda>a b. snd b \<le> snd a) (simple_text_search candidates query) \<and>
   (\<forall>i j. i < length (simple_text_search candidates query) \<and>
          j < length (simple_text_search candidates query) \<and>
          sublist (lower query) (haystack (fst (simple_text_search candidates query ! i))) \<and>
          \<not> sublist (lower query) (haystack (fst (simple_text_search candidates query ! j))) \<and>
          \<not> set (split_ws (lower query))
              \<subseteq> set (split_ws (haystack (fst (simple_text_search candidates query ! j))))
      \<longrightarrow> snd (simple_text_search candidates query ! i) = 100 \<and>
          snd (simple_text_search candidates query ! j) < 100 \<and> i < j)"
  (is "?scores \<and> ?kept \<and> ?sorted \<and> ?order")
proof -
  let ?R = "simple_text_search candidates query"
  have 1: ?scores
    using text_score_cases [of "lower query"] by blast
  have pos: "(s = text_score (lower query) c \<and> 0 < s) = (s = text_score (lower query) c \<and> s \<noteq> 0)"
    for s c
    using text_score_bounds [of "lower query" c] by auto
  have 2: ?kept
    unfolding set_simple_text_search by (simp add: pos)
  have 3: ?sorted
    by (rule sorted_simple_text_search)
  have 4: ?order
  proof (intro allI impI)
    fix i j
    assume h: "i < length ?R \<and> j < length ?R \<and>
          sublist (lower query) (haystack (fst (?R ! i))) \<and>
          \<not> sublist (lower query) (haystack (fst (?R ! j))) \<and>
          \<not> set (split_ws (lower query)) \<subseteq> set (split_ws (haystack (fst (?R ! j))))"
    have s: "snd (?R ! k) = text_score (lower query) (fst (?R ! k))" if "k < length ?R" for k
    proof -
      from that have "?R ! k \<in> set ?R" by simp
      then show ?thesis unfolding set_simple_text_search by auto
    qed
    from h have i: "snd (?R ! i) = 100"
      using s [of i] text_score_cases [of "lower query" "fst (?R ! i)"] by simp
    from h have j: "snd (?R ! j) < 100"
      using s [of j] text_score_partial [of "lower query" "fst (?R ! j)"] by simp
    from i j have "snd (?R ! j) < snd (?R ! i)" by simp
    with h 3 have "i < j"
      using sorted_desc_index [of snd ?R i j] by blast
    with i j show "snd (?R ! i) = 100 \<and> snd (?R ! j) < 100 \<and> i < j" by simp
  qed
  from 1 2 3 4 show ?thesis by (intro conjI)
qed

lemma text_search_python_sql:
  "simple_text_search talent_pool ''Python SQL'' = [(talent_a, 100), (talent_c, 50)]"
  by code_simp

theorem simple_text_search_scores_witness:
  "simple_text_search talent_pool ''Python SQL'' = [(talent_a, 100), (talent_c, 50)] \<and>
   talent_a \<in> set talent_pool \<and>
   sublist (lower ''Python SQL'') (haystack talent_a) \<and>
   text_score (lower ''Python SQL'') talent_a = 100 \<and>
   \<not> sublist (lower ''Python SQL'') (haystack talent_c) \<and>
   \<not> set (split_ws (lower ''Python SQL'')) \<subseteq> set (split_ws (haystack talent_c)) \<and>
   snd (simple_text_search talent_pool ''Python SQL'' ! 1) < 100"
proof -
  have m: "talent_a \<in> set talent_pool"
    by (simp add: talent_pool_def)
  have a: "sublist (lower ''Python SQL'') (haystack talent_a)"
    unfolding contains_sublist [symmetric] by code_simp
  have c: "\<not> sublist (lower ''Python SQL'') (haystack talent_c)"
    unfolding contains_sublist [symmetric] by code_simp
  have w: "\<not> set (split_ws (lower ''Python SQL'')) \<subseteq> set (split_ws (haystack talent_c))"
    by code_simp
  note t = simple_text_search_scores [of talent_pool "''Python SQL''"]
  from t m a have s: "text_score (lower ''Python SQL'') talent_a = 100"
    by blast
  have "0 < length (simple_text_search talent_pool ''Python SQL'') \<and>
        1 < length (simple_text_search talent_pool ''Python SQL'') \<and>
        sublist (lower ''Python SQL'')
          (haystack (fst (simple_text_search talent_pool ''Python SQL'' ! 0))) \<and>
        \<not> sublist (lower ''Python SQL'')
          (haystack (fst (simple_text_search talent_pool ''Python SQL'' ! 1))) \<and>
        \<not> set (split_ws (lower ''Python SQL''))
           \<subseteq> set (split_ws (haystack (fst (simple_text_search talent_pool ''Python SQL'' ! 1))))"
    using a c w by (simp add: text_search_python_sql)
  with t have "snd (simple_text_search talent_pool ''Python SQL'' ! 1) < 100"
    by blast
  with text_search_python_sql m a s c w show ?thesis by (intro conjI)
qed


text \<open>
  Claim C5, as amended. When \<^verbatim>\<open>_rank_candidates_by_criteria\<close> returns, the output is a
  permutation of the input candidates (none is filtered out), in descending order of score,
  and each score is the sum of: 50 times the number of distinct lower-cased candidate skills
  among the lower-cased required skills, divided by the length of the required list (0 when
  the list is empty); 30 if the required level is not empty, is not \<^verbatim>\<open>qualquer\<close>, and is
  a substring of the candidate's level or contains it; 20 if the required area is not empty
  and is a substring of the candidate's area.
\<close>

theorem rank_by_criteria_scores:
  assumes "rank_candidates_by_criteria candidates criteria = Inr result"
  shows "mset (map fst result) = mset candidates \<and>
         sorted_wrt (\<lambda>a b. snd b \<le> snd a) result \<and>
         (\<forall>p \<in> set result.
            \<exists>kvs req lvl ar.
              criteria = JObj kvs \<and>
              lower_each (dict_get (map_of kvs ''skills'') (JArr [])) = Inr req \<and>
              get_lower kvs ''level'' = Inr lvl \<and>
              get_lower kvs ''area'' = Inr ar \<and>
              snd p =
                (if req \<noteq> []
                 then real (card (set (map lower (dict_get (t_skills (fst p)) [])) \<inter> set req)) /
                      real (length req) * 50
                 else 0)
                + (if lvl \<noteq> [] \<and> lvl \<noteq> ''qualquer'' \<and>
                      (sublist lvl (lower (dict_get (t_level (fst p)) [])) \<or>
                       sublist (lower (dict_get (t_level (fst p)) [])) lvl)
                   then 30 else 0)
                + (if ar \<noteq> [] \<and> sublist ar (lower (dict_get (t_area (fst p)) []))
                   then 20 else 0))"
proof -
  note r = rank_Inr [OF assms]
  have "\<forall>p \<in> set result.
            \<exists>kvs req lvl ar.
              criteria = JObj kvs \<and>
              lower_each (dict_get (map_of kvs ''skills'') (JArr [])) = Inr req \<and>
              get_lower kvs ''level'' = Inr lvl \<and>
              get_lower kvs ''area'' = Inr ar \<and>
              snd p =
                (if req \<noteq> []
                 then real (card (set (map lower (dict_get (t_skills (fst p)) [])) \<inter> set req)) /
                      real (length req) * 50
                 else 0)
                + (if lvl \<noteq> [] \<and> lvl \<noteq> ''qualquer'' \<and>
                      (sublist lvl (lower (dict_get (t_level (fst p)) [])) \<or>
                       sublist (lower (dict_get (t_level (fst p)) [])) lvl)
                   then 30 else 0)
                + (if ar \<noteq> [] \<and> sublist ar (lower (dict_get (t_area (fst p)) []))
                   then 20 else 0)"
  proof
    fix p
    assume "p \<in> set result"
    with r(3) have "criteria_score criteria (fst p) = Inr (snd p)" by blast
    then show "\<exists>kvs req lvl ar.
              criteria = JObj kvs \<and>
              lower_each (dict_get (map_of kvs ''skills'') (JArr [])) = Inr req \<and>
              get_lower kvs ''level'' = Inr lvl \<and>
              get_lower kvs ''area'' = Inr ar \<and>
              snd p =
                (if req \<noteq> []
                 then real (card (set (map lower (dict_get (t_skills (fst p)) [])) \<inter> set req)) /
                      real (length req) * 50
                 else 0)
                + (if lvl \<noteq> [] \<and> lvl \<noteq> ''qualquer'' \<and>
                      (sublist lvl (lower (dict_get (t_level (fst p)) [])) \<or>
                       sublist (lower (dict_get (t_level (fst p)) [])) lvl)
                   then 30 else 0)
                + (if ar \<noteq> [] \<and> sublist ar (lower (dict_get (t_area (fst p)) []))
                   then 20 else 0)"
      by (rule criteria_score_Inr)
  qed
  with r(1) r(2) show ?thesis by (intro conjI)
qed

lemma rank_senior:
  "rank_candidates_by_criteria talent_pool criteria_senior =
     Inr [(talent_c, 55), (talent_a, 55), (talent_b, 30)]"
  by code_simp

theorem rank_by_criteria_scores_witness:
  "rank_candidates_by_criteria talent_pool criteria_senior =
     Inr [(talent_c, 55), (talent_a, 55), (talent_b, 30)] \<and>
   mset (map fst [(talent_c, 55 :: real), (talent_a, 55), (talent_b, 30)]) = mset talent_pool \<and>
   sorted_wrt (\<lambda>a b. snd b \<le> snd a) [(talent_c, 55 :: real), (talent_a, 55), (talent_b, 30)]"
  using rank_by_criteria_scores [OF rank_senior] rank_senior by simp

text \<open>
  Claim C5 as stated fails for the level \<^verbatim>\<open>qualquer\<close> (any): the required level is a
  substring of the candidate's level, and the candidate gets no points for it.
\<close>

theorem rank_by_criteria_any_level_counterexample:
  "dict_get (t_level talent_q) [] = ''qualquer'' \<and>
   get_lower [(''skills'', JArr []), (''level'', JStr ''qualquer''), (''area'', JStr [])] ''level''
     = Inr ''qualquer'' \<and>
   sublist ''qualquer'' (lower (dict_get (t_level talent_q) [])) \<and>
   rank_candidates_by_criteria [talent_q] criteria_any = Inr [(talent_q, 0)]"
proof -
  have 1: "dict_get (t_level talent_q) [] = ''qualquer''" by code_simp
  have 2: "get_lower [(''skills'', JArr []), (''level'', JStr ''qualquer''), (''area'', JStr [])] ''level''
     = Inr ''qualquer''" by code_simp
  have 3: "sublist ''qualquer'' (lower (dict_get (t_level talent_q) []))"
    unfolding contains_sublist [symmetric] by code_simp
  have 4: "rank_candidates_by_criteria [talent_q] criteria_any = Inr [(talent_q, 0)]"
    by code_simp
  from 1 2 3 4 show ?thesis by (intro conjI)
qed

text \<open>
  Claim C10. Every entry returned by \<^verbatim>\<open>search_talent_pool\<close>, on the criteria path and on
  the text fallback, is a candidate of the input pool together with a relevance score
  within 0 and 100.
\<close>

theorem search_results_in_range:
  "\<forall>p \<in> set (search_talent_pool loads response query candidates).
     fst p \<in> set candidates \<and> 0 \<le> snd p \<and> snd p \<le> 100"
proof
  fix p
  assume p: "p \<in> set (search_talent_pool loads response query candidates)"
  from search_cases [of loads response query candidates]
  consider (fallback) "search_talent_pool loads response query candidates =
                         simple_text_search candidates query"
    | (ranked) criteria where "rank_candidates_by_criteria candidates criteria =
        Inr (search_talent_pool loads response query candidates)"
    by blast
  then show "fst p \<in> set candidates \<and> 0 \<le> snd p \<and> snd p \<le> 100"
  proof cases
    case fallback
    obtain c s where cs: "p = (c, s)" by (cases p)
    from fallback p have "(c, s) \<in> set (simple_text_search candidates query)"
      by (simp add: cs)
    then have "fst p \<in> set candidates \<and> snd p = text_score (lower query) (fst p)"
      by (simp add: set_simple_text_search cs)
    then show ?thesis using text_score_bounds [of "lower query" "fst p"] by simp
  next
    case ranked
    note r = rank_Inr [OF ranked]
    from p have "fst p \<in> set (map fst (search_talent_pool loads response query candidates))"
      by simp
    then have "fst p \<in> set candidates"
      using r(1) by (metis set_mset_mset)
    moreover from p r(3) have "criteria_score criteria (fst p) = Inr (snd p)" by blast
    ultimately show ?thesis using criteria_score_bounds by blast
  qed
qed

lemma search_fallback_value:
  "search_talent_pool loads_criteria ApiError ''Python SQL'' talent_pool =
     [(talent_a, 100), (talent_c, 50)]"
  by code_simp

lemma search_criteria_value:
  "search_talent_pool loads_criteria (Content criteria_reply) ''Python SQL'' talent_pool =
     [(talent_c, 55), (talent_a, 55), (talent_b, 30)]"
  by code_simp

theorem search_results_in_range_witness:
  "(talent_c, 50) \<in> set (search_talent_pool loads_criteria ApiError ''Python SQL'' talent_pool) \<and>
   (talent_b, 30) \<in> set (search_talent_pool loads_criteria (Content criteria_reply)
                         ''Python SQL'' talent_pool) \<and>
   talent_c \<in> set talent_pool \<and> talent_b \<in> set talent_pool \<and>
   (0 :: real) \<le> 50 \<and> (50 :: real) \<le> 100"
proof -
  have 1: "(talent_c, 50) \<in> set (search_talent_pool loads_criteria ApiError ''Python SQL'' talent_pool)"
    by (simp add: search_fallback_value)
  have 2: "(talent_b, 30) \<in> set (search_talent_pool loads_criteria (Content criteria_reply)
                         ''Python SQL'' talent_pool)"
    by (simp add: search_criteria_value)
  from search_results_in_range [of loads_criteria ApiError "''Python SQL''" talent_pool] 1
  have 3: "talent_c \<in> set talent_pool \<and> (0 :: real) \<le> 50 \<and> (50 :: real) \<le> 100"
    by fastforce
  from search_results_in_range [of loads_criteria "Content criteria_reply" "''Python SQL''" talent_pool] 2
  have 4: "talent_b \<in> set talent_pool"
    by fastforce
  from 1 2 3 4 show ?thesis by simp
qed

section \<open>Properties of the ranking endpoint and the pool\<close>

lemma get_connection_keeps:
  assumes "get_connection d st = (r, st1)"
  shows "model_results st1 = model_results st" and "error_log st1 = error_log st"
    and "calls st1 = calls st + 1"
  using assms by (auto simp: get_connection_def Let_def split: if_splits)

lemma release_keeps:
  "model_results (release st) = model_results st"
  "error_log (release st) = error_log st"
  by (simp_all add: release_def)

lemma get_candidate_data_keeps:
  assumes "get_candidate_data d cid st = (r, st1)"
  shows "model_results st1 = model_results st" and "error_log st1 = error_log st"
proof -
  obtain r0 st0 where g: "get_connection d st = (r0, st0)" by (cases "get_connection d st")
  note k = get_connection_keeps [OF g]
  from assms g have "st1 = st0 \<or> st1 = release st0"
    by (auto simp: get_candidate_data_def split: sum.splits if_splits option.splits)
  with k show "model_results st1 = model_results st" and "error_log st1 = error_log st"
    by (auto simp: release_keeps)
qed

lemma save_model_result_effect:
  assumes "save_model_result d cid jid cmp cult prof details flags recommend st = (saved, st1)"
  shows "error_log st1 = error_log st"
    and "model_results st1 = model_results st \<or>
         (\<exists>row. model_results st1 = model_results st @ [row] \<and>
            mr_user_id row = cid \<and> mr_job_id row = jid \<and>
            mr_score_afinidade_cultural row = cult \<and>
            mr_score_compatibilidade_profissional row = prof \<and>
            mr_recomendacao row = recommend \<and> mr_detalhes row = details)"
    and "saved \<noteq> None \<longrightarrow>
         (\<exists>row. model_results st1 = model_results st @ [row] \<and>
            mr_user_id row = cid \<and> mr_job_id row = jid \<and>
            mr_score_afinidade_cultural row = cult \<and>
            mr_score_compatibilidade_profissional row = prof \<and>
            mr_recomendacao row = recommend \<and> mr_detalhes row = details)"
proof -
  obtain r0 st0 where g: "get_connection d st = (r0, st0)" by (cases "get_connection d st")
  note k = get_connection_keeps [OF g]
  let ?ins = "\<lambda>rf. prc_insert_model_result cid jid cult prof rf recommend details st0"
  from assms g have c: "(saved = None \<and> (st1 = st0 \<or> st1 = release st0)) \<or>
      (\<exists>rf. st1 = release (snd (?ins rf)))"
    by (auto simp: save_model_result_def split: sum.splits if_splits prod.splits)
       (metis snd_conv)+
  have ins: "\<exists>row. model_results (release (snd (?ins rf))) = model_results st @ [row] \<and>
            mr_user_id row = cid \<and> mr_job_id row = jid \<and>
            mr_score_afinidade_cultural row = cult \<and>
            mr_score_compatibilidade_profissional row = prof \<and>
            mr_recomendacao row = recommend \<and> mr_detalhes row = details" for rf
    by (simp add: prc_insert_model_result_def release_def k)
  have el: "error_log (release (snd (?ins rf))) = error_log st" for rf
    by (simp add: prc_insert_model_result_def release_def k)
  from c k el show "error_log st1 = error_log st"
    by (auto simp: release_keeps)
  from c k ins show "model_results st1 = model_results st \<or>
         (\<exists>row. model_results st1 = model_results st @ [row] \<and>
            mr_user_id row = cid \<and> mr_job_id row = jid \<and>
            mr_score_afinidade_cultural row = cult \<and>
            mr_score_compatibilidade_profissional row = prof \<and>
            mr_recomendacao row = recommend \<and> mr_detalhes row = details)"
    by (auto simp: release_keeps)
  from c ins show "saved \<noteq> None \<longrightarrow>
         (\<exists>row. model_results st1 = model_results st @ [row] \<and>
            mr_user_id row = cid \<and> mr_job_id row = jid \<and>
            mr_score_afinidade_cultural row = cult \<and>
            mr_score_compatibilidade_profissional row = prof \<and>
            mr_recomendacao row = recommend \<and> mr_detalhes row = details)"
    by auto
qed


lemma process_candidate_effect:
  assumes "process_candidate d loads to_float llm request job st c = (out, st1)"
  shows "error_log st1 = error_log st"
    and "prefix (model_results st) (model_results st1)"
    and "out = Ranked entry saved \<Longrightarrow>
           rk_candidate_id entry = cd_id c \<and>
           (\<exists>m. rq_min_compatibility request = Some m \<and> m \<le> rk_compatibility_score entry) \<and>
           (saved \<noteq> None \<longrightarrow>
              (\<exists>row. model_results st1 = model_results st @ [row] \<and>
                     holds_entry request entry row))"
proof -
  obtain r0 st0 where g: "get_candidate_data d (cd_id c) st = (r0, st0)"
    by (cases "get_candidate_data d (cd_id c) st")
  note k = get_candidate_data_keeps [OF g]
  show "error_log st1 = error_log st"
    using assms g k save_model_result_effect(1)
    by (auto simp: process_candidate_def Let_def
             split: sum.splits option.splits if_splits prod.splits)
  show "prefix (model_results st) (model_results st1)"
    using assms g k save_model_result_effect(2)
    by (fastforce simp: process_candidate_def Let_def
             split: sum.splits option.splits if_splits prod.splits)
  assume o: "out = Ranked entry saved"
  with assms g obtain cdata m where
    r0: "r0 = Inr (Some cdata)" and m: "rq_min_compatibility request = Some m"
    by (auto simp: process_candidate_def Let_def
             split: sum.splits option.splits if_splits prod.splits)
  define a where
    "a = analyze_candidate_compatibility loads to_float (llm cdata job) cdata job"
  from assms g o r0 m have ge: "\<not> compatibility_score a < m"
    and sv: "save_model_result d (cd_id c) (rq_job_id request)
                         (compatibility_score a) (cultural_fit_score a)
                         (professional_fit_score a) (ai_analysis a) (red_flags a)
                         (recommendation a) st0 = (saved, st1)"
    and e: "entry = \<lparr> rk_candidate_id = cd_id c,
                                rk_candidate_name = cd_name cdata,
                                rk_candidate_email = cd_email cdata,
                                rk_compatibility_score = compatibility_score a,
                                rk_cultural_fit_score = cultural_fit_score a,
                                rk_professional_fit_score = professional_fit_score a,
                                rk_ai_analysis = ai_analysis a,
                                rk_red_flags = red_flags a,
                                rk_recommendation = recommendation a \<rparr>"
    by (auto simp: process_candidate_def Let_def a_def split: if_splits prod.splits)
  from save_model_result_effect(3) [OF sv] k(1)
  have "saved \<noteq> None \<longrightarrow>
              (\<exists>row. model_results st1 = model_results st @ [row] \<and>
                     holds_entry request entry row)"
    by (auto simp: holds_entry_def e)
  with ge m e show "rk_candidate_id entry = cd_id c \<and>
           (\<exists>m. rq_min_compatibility request = Some m \<and> m \<le> rk_compatibility_score entry) \<and>
           (saved \<noteq> None \<longrightarrow>
              (\<exists>row. model_results st1 = model_results st @ [row] \<and>
                     holds_entry request entry row))"
    by simp
qed


lemma rank_loop_Cons:
  assumes "process_candidate d loads to_float llm request job st c = (out, st1)"
  shows "rank_loop d loads to_float llm request job st (c # cs) =
           (case out of
              Raised e \<Rightarrow>
                rank_loop d loads to_float llm request job
                  (st1\<lparr>error_log := error_log st1 @ [(cd_id c, e)]\<rparr>) cs
            | Skipped \<Rightarrow> rank_loop d loads to_float llm request job st1 cs
            | Ranked entry saved \<Rightarrow>
                (entry # fst (rank_loop d loads to_float llm request job st1 cs),
                 snd (rank_loop d loads to_float llm request job st1 cs)))"
  using assms by (simp split: outcome.splits prod.splits)

lemma loop_trace_Cons:
  assumes "process_candidate d loads to_float llm request job st c = (out, st1)"
  shows "loop_trace d loads to_float llm request job st (c # cs) =
           (c, out) #
           (case out of
              Raised e \<Rightarrow>
                loop_trace d loads to_float llm request job
                  (st1\<lparr>error_log := error_log st1 @ [(cd_id c, e)]\<rparr>) cs
            | _ \<Rightarrow> loop_trace d loads to_float llm request job st1 cs)"
  using assms by (simp split: outcome.splits prod.splits)

lemma rank_loop_trace:
  "fst (rank_loop d loads to_float llm request job st cs) =
     entries_of (loop_trace d loads to_float llm request job st cs) \<and>
   map fst (loop_trace d loads to_float llm request job st cs) = cs \<and>
   error_log (snd (rank_loop d loads to_float llm request job st cs)) =
     error_log st @ failures_of (loop_trace d loads to_float llm request job st cs) \<and>
   prefix (model_results st) (model_results (snd (rank_loop d loads to_float llm request job st cs))) \<and>
   (\<forall>c entry saved.
      (c, Ranked entry saved) \<in> set (loop_trace d loads to_float llm request job st cs) \<longrightarrow>
        rk_candidate_id entry = cd_id c \<and>
        (\<exists>m. rq_min_compatibility request = Some m \<and> m \<le> rk_compatibility_score entry) \<and>
        (saved \<noteq> None \<longrightarrow>
           (\<exists>row \<in> set (model_results (snd (rank_loop d loads to_float llm request job st cs))).
              holds_entry request entry row)))"
proof (induction cs arbitrary: st)
  case Nil
  then show ?case by simp
next
  case (Cons c cs)
  obtain out st1 where p: "process_candidate d loads to_float llm request job st c = (out, st1)"
    by (cases "process_candidate d loads to_float llm request job st c")
  note eff = process_candidate_effect [OF p]
  note rl = rank_loop_Cons [OF p, of cs]
  note lt = loop_trace_Cons [OF p, of cs]
  show ?case
  proof (cases out)
    case (Raised e)
    let ?st = "st1\<lparr>error_log := error_log st1 @ [(cd_id c, e)]\<rparr>"
    note ih = Cons.IH [of ?st]
    have m: "model_results ?st = model_results st1" by simp
    from ih eff(1) eff(2) show ?thesis
      unfolding rl lt Raised by (auto simp: m)
  next
    case Skipped
    note ih = Cons.IH [of st1]
    from ih eff(1) eff(2) show ?thesis
      unfolding rl lt Skipped by auto
  next
    case (Ranked entry saved)
    note ih = Cons.IH [of st1]
    note e3 = eff(3) [OF Ranked]
    let ?st' = "snd (rank_loop d loads to_float llm request job st1 cs)"
    from ih have pre: "prefix (model_results st1) (model_results ?st')" by blast
    have row: "saved \<noteq> None \<longrightarrow> (\<exists>row \<in> set (model_results ?st'). holds_entry request entry row)"
    proof
      assume "saved \<noteq> None"
      with e3 obtain row where
        r: "model_results st1 = model_results st @ [row]" and h: "holds_entry request entry row"
        by blast
      from r have "row \<in> set (model_results st1)" by simp
      with pre have "row \<in> set (model_results ?st')"
        using set_mono_prefix by blast
      with h show "\<exists>row \<in> set (model_results ?st'). holds_entry request entry row" by blast
    qed
    from eff(2) pre have pre2: "prefix (model_results st) (model_results ?st')"
      by (rule prefix_order.trans)
    from ih eff(1) e3 row pre2 show ?thesis
      unfolding rl lt Ranked by auto
  qed
qed


lemma get_job_data_keeps:
  assumes "get_job_data d jid st = (r, st1)"
  shows "model_results st1 = model_results st" and "error_log st1 = error_log st"
    and "users st1 = users st"
proof -
  obtain r0 st0 where g: "get_connection d st = (r0, st0)" by (cases "get_connection d st")
  from g have u: "users st0 = users st"
    by (auto simp: get_connection_def Let_def split: if_splits)
  note k = get_connection_keeps [OF g]
  from assms g have "st1 = st0 \<or> st1 = release st0"
    by (auto simp: get_job_data_def split: sum.splits if_splits option.splits)
  with k u show "model_results st1 = model_results st" and "error_log st1 = error_log st"
    and "users st1 = users st"
    by (auto simp: release_def)
qed

lemma get_all_candidates_keeps:
  assumes "get_all_candidates d st = (r, st1)"
  shows "model_results st1 = model_results st" and "error_log st1 = error_log st"
    and "distinct (map u_id (users st)) \<Longrightarrow> distinct (map cd_id r)"
proof -
  obtain r0 st0 where g: "get_connection d st = (r0, st0)" by (cases "get_connection d st")
  from g have u: "users st0 = users st"
    by (auto simp: get_connection_def Let_def split: if_splits)
  note k = get_connection_keeps [OF g]
  from assms g have "st1 = st0 \<or> st1 = release st0"
    by (auto simp: get_all_candidates_def split: sum.splits if_splits)
  with k show "model_results st1 = model_results st" and "error_log st1 = error_log st"
    by (auto simp: release_def)
  assume dist: "distinct (map u_id (users st))"
  let ?rows = "sort_key u_nome (filter (\<lambda>u. u_role u = ''candidate'') (users st))"
  have "distinct (map u_id (filter (\<lambda>u. u_role u = ''candidate'') (users st)))"
    using dist by (rule distinct_map_filter)
  then have "distinct (map u_id ?rows)"
    by (simp add: distinct_map)
  moreover from assms g u have "map cd_id r = [] \<or> map cd_id r = map u_id ?rows"
    by (auto simp: get_all_candidates_def comp_def split: sum.splits if_splits)
  ultimately show "distinct (map cd_id r)" by auto
qed


lemma rank_candidates_cases:
  "(\<exists>st1. get_job_data d (rq_job_id request) st = (None, st1) \<and>
      rank_candidates d loads to_float llm request st = (Inl HTTP_404, st1) \<and>
      ranking_trace d loads to_float llm request st = []) \<or>
   (\<exists>job st1 all_candidates st2.
      get_job_data d (rq_job_id request) st = (Some job, st1) \<and>
      get_all_candidates d st1 = (all_candidates, st2) \<and>
      ranking_trace d loads to_float llm request st =
        loop_trace d loads to_float llm request job st2 all_candidates \<and>
      rank_candidates d loads to_float llm request st =
        (Inr (slice_to (rq_limit request)
               (sort_desc rk_compatibility_score
                  (fst (rank_loop d loads to_float llm request job st2 all_candidates)))),
         snd (rank_loop d loads to_float llm request job st2 all_candidates)))"
proof -
  obtain j st1 where g: "get_job_data d (rq_job_id request) st = (j, st1)"
    by (cases "get_job_data d (rq_job_id request) st")
  obtain all_candidates st2 where a: "get_all_candidates d st1 = (all_candidates, st2)"
    by (cases "get_all_candidates d st1")
  show ?thesis
  proof (cases j)
    case None
    with g show ?thesis
      by (simp add: rank_candidates_def ranking_trace_def)
  next
    case (Some job)
    have "rank_candidates d loads to_float llm request st =
        (Inr (slice_to (rq_limit request)
               (sort_desc rk_compatibility_score
                  (fst (rank_loop d loads to_float llm request job st2 all_candidates)))),
         snd (rank_loop d loads to_float llm request job st2 all_candidates))"
    proof (cases "all_candidates = []")
      case True
      then show ?thesis
        using g a Some
        by (simp add: rank_candidates_def slice_to_def sort_desc_def split: option.splits)
    next
      case False
      then show ?thesis
        using g a Some
        by (simp add: rank_candidates_def case_prod_beta)
    qed
    with g a Some show ?thesis
      by (simp add: ranking_trace_def)
  qed
qed


lemma entries_of_set:
  "entry \<in> set (entries_of t) \<longleftrightarrow> (\<exists>c saved. (c, Ranked entry saved) \<in> set t)"
  by (induction t rule: entries_of.induct) auto

lemma failures_of_set:
  "(i, e) \<in> set (failures_of t) \<longleftrightarrow> (\<exists>c. (c, Raised e) \<in> set t \<and> cd_id c = i)"
  by (induction t rule: failures_of.induct) auto






text \<open>
  Claim C9 does not hold of the code. \<^verbatim>\<open>get_candidate_data\<close> releases its connection when
  it finds the candidate and when a statement raises, and keeps it when no row is found;
  \<^verbatim>\<open>get_job_data\<close> does the same; \<^verbatim>\<open>get_candidate_model_results\<close> keeps it when a
  statement raises.
\<close>

theorem candidate_lookup_leaks_connection:
  "in_use db0 = 0 \<and>
   fst (get_candidate_data driver_ok 1 db0) \<noteq> Inr None \<and>
   in_use (snd (get_candidate_data driver_ok 1 db0)) = 0 \<and>
   in_use (snd (get_candidate_data driver_query_fails 1 db0)) = 0 \<and>
   fst (get_candidate_data driver_ok 99 db0) = Inr None \<and>
   in_use (snd (get_candidate_data driver_ok 99 db0)) = 1 \<and>
   fst (get_job_data driver_ok 99 db0) = None \<and>
   in_use (snd (get_job_data driver_ok 99 db0)) = 1 \<and>
   fst (get_candidate_model_results driver_query_fails 1 db0) = Inl HTTP_500 \<and>
   in_use (snd (get_candidate_model_results driver_query_fails 1 db0)) = 1"
proof -
  have 0: "in_use db0 = 0" by code_simp
  have 1: "fst (get_candidate_data driver_ok 1 db0) \<noteq> Inr None" by code_simp
  have 2: "in_use (snd (get_candidate_data driver_ok 1 db0)) = 0" by code_simp
  have 3: "in_use (snd (get_candidate_data driver_query_fails 1 db0)) = 0" by code_simp
  have 4: "fst (get_candidate_data driver_ok 99 db0) = Inr None" by code_simp
  have 5: "in_use (snd (get_candidate_data driver_ok 99 db0)) = 1" by code_simp
  have 6: "fst (get_job_data driver_ok 99 db0) = None" by code_simp
  have 7: "in_use (snd (get_job_data driver_ok 99 db0)) = 1" by code_simp
  have 8: "fst (get_candidate_model_results driver_query_fails 1 db0) = Inl HTTP_500" by code_simp
  have 9: "in_use (snd (get_candidate_model_results driver_query_fails 1 db0)) = 1" by code_simp
  from 0 1 2 3 4 5 6 7 8 9 show ?thesis by (intro conjI)
qed


lemma trace_ids_distinct:
  assumes "map fst t = cs" and "distinct (map cd_id cs)"
    and "(c, out) \<in> set t" and "(c', out') \<in> set t" and "cd_id c = cd_id c'"
  shows "out = out'"
proof -
  have "map (\<lambda>p. cd_id (fst p)) t = map cd_id (map fst t)" by simp
  with assms(1,2) have "distinct (map (\<lambda>p. cd_id (fst p)) t)"
    by simp
  then have "inj_on (\<lambda>p. cd_id (fst p)) (set t)"
    by (simp add: distinct_map)
  moreover have "(\<lambda>p. cd_id (fst p)) (c, out) = (\<lambda>p. cd_id (fst p)) (c', out')"
    using assms(5) by simp
  ultimately have "(c, out) = (c', out')"
    using assms(3,4) by (rule inj_onD)
  then show ?thesis by simp
qed

text \<open>
  Claim C7. The ranking endpoint never answers with status 500, and once the job is found it
  returns the sorted, truncated list of the entries of its loop. Every candidate whose pass
  raised is logged with its id and the exception, and has no entry; every candidate whose
  pass appended an entry has that entry among those the result is cut from. Candidate ids
  are the primary key of the table, hence distinct.
\<close>

theorem ranking_survives_candidate_failures:
  assumes "distinct (map u_id (users st))"
  shows "fst (rank_candidates d loads to_float llm request st) \<noteq> Inl HTTP_500 \<and>
         (\<forall>job st1. get_job_data d (rq_job_id request) st = (Some job, st1) \<longrightarrow>
            fst (rank_candidates d loads to_float llm request st) =
              Inr (slice_to (rq_limit request)
                     (sort_desc rk_compatibility_score
                        (entries_of (ranking_trace d loads to_float llm request st))))) \<and>
         error_log (snd (rank_candidates d loads to_float llm request st)) =
           error_log st @ failures_of (ranking_trace d loads to_float llm request st) \<and>
         (\<forall>c e. (c, Raised e) \<in> set (ranking_trace d loads to_float llm request st) \<longrightarrow>
            (cd_id c, e) \<in> set (error_log (snd (rank_candidates d loads to_float llm request st))) \<and>
            cd_id c \<notin> rk_candidate_id `
               set (entries_of (ranking_trace d loads to_float llm request st))) \<and>
         (\<forall>c entry saved.
            (c, Ranked entry saved) \<in> set (ranking_trace d loads to_float llm request st) \<longrightarrow>
              rk_candidate_id entry = cd_id c \<and>
              entry \<in> set (entries_of (ranking_trace d loads to_float llm request st)))"
  (is "?no500 \<and> ?succeeds \<and> ?logged \<and> ?skipped \<and> ?kept")
proof -
  let ?t = "ranking_trace d loads to_float llm request st"
  let ?R = "rank_candidates d loads to_float llm request st"
  from rank_candidates_cases [of d request st loads to_float llm]
  consider (missing) st1 where "get_job_data d (rq_job_id request) st = (None, st1)"
      and "?R = (Inl HTTP_404, st1)" and "?t = []"
    | (found) job st1 all_candidates st2 where
        "get_job_data d (rq_job_id request) st = (Some job, st1)"
        and "get_all_candidates d st1 = (all_candidates, st2)"
        and "?t = loop_trace d loads to_float llm request job st2 all_candidates"
        and "?R = (Inr (slice_to (rq_limit request)
               (sort_desc rk_compatibility_score
                  (fst (rank_loop d loads to_float llm request job st2 all_candidates)))),
           snd (rank_loop d loads to_float llm request job st2 all_candidates))"
    by blast
  then show ?thesis
  proof cases
    case missing
    from get_job_data_keeps(2) [OF missing(1)] missing(2,3)
    have "error_log (snd ?R) = error_log st @ failures_of ?t" by simp
    with missing show ?thesis by simp
  next
    case found
    note l = rank_loop_trace [of d loads to_float llm request job st2 all_candidates]
    have 1: ?no500 by (simp add: found(4))
    have 2: ?succeeds
      using l by (simp add: found(4) found(3))
    have el: "error_log st2 = error_log st"
      using get_job_data_keeps(2) [OF found(1)] get_all_candidates_keeps(2) [OF found(2)]
      by simp
    have 3: ?logged
      using l el by (simp add: found(4) found(3))
    have "distinct (map u_id (users st1))"
      using assms get_job_data_keeps(3) [OF found(1)] by simp
    then have dist: "distinct (map cd_id all_candidates)"
      by (rule get_all_candidates_keeps(3) [OF found(2)])
    from l have fst_t: "map fst ?t = all_candidates" by (simp add: found(3))
    have 5: ?kept
      using l unfolding found(3) entries_of_set by blast
    have 4: ?skipped
    proof (intro allI impI conjI)
      fix c e
      assume r: "(c, Raised e) \<in> set ?t"
      then have "(cd_id c, e) \<in> set (failures_of ?t)"
        unfolding failures_of_set by blast
      with 3 show "(cd_id c, e) \<in> set (error_log (snd ?R))" by simp
      show "cd_id c \<notin> rk_candidate_id ` set (entries_of ?t)"
      proof
        assume "cd_id c \<in> rk_candidate_id ` set (entries_of ?t)"
        then obtain entry where en: "entry \<in> set (entries_of ?t)"
          and id: "cd_id c = rk_candidate_id entry" by blast
        from en obtain c' saved where k: "(c', Ranked entry saved) \<in> set ?t"
          unfolding entries_of_set by blast
        with 5 have "rk_candidate_id entry = cd_id c'" by blast
        with id have "cd_id c = cd_id c'" by simp
        from trace_ids_distinct [OF fst_t dist r k this] show False by simp
      qed
    qed
    from 1 2 3 4 5 show ?thesis by (intro conjI)
  qed
qed

lemma demo_failures:
  "failures_of (ranking_trace (driver_fails_at 4 AcquireFails) loads_demo to_float_demo llm_down
                  request_all db0) = [(2, UnboundLocalError)]"
  by code_simp

theorem ranking_survives_candidate_failures_witness:
  "distinct (map u_id (users db0)) \<and>
   error_log db0 = [] \<and>
   error_log (snd (rank_candidates (driver_fails_at 4 AcquireFails) loads_demo to_float_demo
                     llm_down request_all db0)) = [(2, UnboundLocalError)] \<and>
   map rk_candidate_id
     (projr (fst (rank_candidates (driver_fails_at 4 AcquireFails) loads_demo to_float_demo
                    llm_down request_all db0))) = [1, 3] \<and>
   map rk_candidate_id
     (projr (fst (rank_candidates driver_ok loads_demo to_float_demo llm_down request_all db0)))
     = [1, 3, 2] \<and>
   fst (rank_candidates (driver_fails_at 4 AcquireFails) loads_demo to_float_demo
          llm_down request_all db0) \<noteq> Inl HTTP_500"
proof -
  have d: "distinct (map u_id (users db0))" by code_simp
  have e: "error_log db0 = []" by code_simp
  have i: "map rk_candidate_id
     (projr (fst (rank_candidates (driver_fails_at 4 AcquireFails) loads_demo to_float_demo
                    llm_down request_all db0))) = [1, 3]"
    by code_simp
  have j: "map rk_candidate_id
     (projr (fst (rank_candidates driver_ok loads_demo to_float_demo llm_down request_all db0)))
     = [1, 3, 2]"
    by code_simp
  note t = ranking_survives_candidate_failures [OF d, of "driver_fails_at 4 AcquireFails"
      loads_demo to_float_demo llm_down request_all]
  from t have l: "error_log (snd (rank_candidates (driver_fails_at 4 AcquireFails) loads_demo
                     to_float_demo llm_down request_all db0)) = [(2, UnboundLocalError)]"
    unfolding demo_failures e by simp
  from t have n: "fst (rank_candidates (driver_fails_at 4 AcquireFails) loads_demo to_float_demo
          llm_down request_all db0) \<noteq> Inl HTTP_500"
    by blast
  from d e l i j n show ?thesis by (intro conjI)
qed

section \<open>Properties of the comments\<close>















end
